theory Spec2Isabelle
  imports Complex_Main "HOL-Library.Log_Nat"
begin

text \<open>
  QR Code Studio: a window in which the user types a text, sees the QR symbol and
  saves it as PNG or SVG.  The theory follows \<open>main.py\<close>: the encoder factory,
  the parameter struct \<open>QRSpec\<close>, the commands Generate and Save, the three
  actions of the window and the scaling of the preview, which
  \<open>_Preview.show\<close> of the second front end computes in the same way.  The QR
  encoding, the image operations, the file system and the dialogs belong to
  external libraries; their calls are recorded and their answers are parameters.
\<close>

section \<open>Python strings\<close>

text \<open>
  A Python \<open>str\<close> is modelled as a \<open>string\<close> whose characters are the code points
  below 256.  On these code points \<open>str.lower\<close> moves the ASCII capitals and the
  Latin-1 capitals (192 to 222 without the multiplication sign 215) up by 32 and
  leaves every other character alone.
\<close>

definition lower_char :: "char \<Rightarrow> char" where
  "lower_char c =
     (let n = (of_char c :: nat)
      in if (65 \<le> n \<and> n \<le> 90) \<or> (192 \<le> n \<and> n \<le> 222 \<and> n \<noteq> 215)
         then char_of (n + 32) else c)"

definition lower :: "string \<Rightarrow> string" where
  "lower s = map lower_char s"

text \<open>\<open>s.lstrip(".")\<close>: every leading dot is removed.\<close>

definition lstrip_dot :: "string \<Rightarrow> string" where
  "lstrip_dot s = dropWhile (\<lambda>c. c = CHR ''.'') s"

text \<open>\<open>s.split(".")\<close>: the segments between dots; the result is never empty.\<close>

fun split_dot :: "string \<Rightarrow> string list" where
  "split_dot [] = [] # []"
| "split_dot (c # cs) =
     (if c = CHR ''.'' then [] # split_dot cs
      else (case split_dot cs of
              [] \<Rightarrow> [c] # []
            | seg # segs \<Rightarrow> (c # seg) # segs))"

text \<open>
  \<open>str.isspace\<close> on one character, and \<open>s.strip()\<close>, which removes the white
  space at both ends.
\<close>

definition is_space :: "char \<Rightarrow> bool" where
  "is_space c =
     (let n = (of_char c :: nat)
      in (9 \<le> n \<and> n \<le> 13) \<or> (28 \<le> n \<and> n \<le> 32) \<or> n = 133 \<or> n = 160)"

definition strip :: "string \<Rightarrow> string" where
  "strip s = rev (dropWhile is_space (rev (dropWhile is_space s)))"

section \<open>Encoder factory\<close>

text \<open>
  The two encoder classes; \<open>ImageEncoderFactory.for_extension\<close> returns a new
  instance of one of them.
\<close>

datatype encoder = PNGEncoder | SVGEncoder

fun ext :: "encoder \<Rightarrow> string" where
  "ext PNGEncoder = ''png''"
| "ext SVGEncoder = ''svg''"

definition for_extension :: "string \<Rightarrow> encoder" where
  "for_extension x =
     (let e = lstrip_dot (lower x)
      in if e = ''png'' then PNGEncoder
         else if e = ''svg'' then SVGEncoder
         else PNGEncoder)"

section \<open>Configuration, strategies and the parameter struct\<close>

text \<open>The constants of the \<open>AppConfig\<close> singleton.\<close>

definition title :: string where "title = ''QR Code Studio''"
definition min_size :: "int \<times> int" where "min_size = (760, 560)"
definition preview_max :: nat where "preview_max = 360"
definition default_box_size :: int where "default_box_size = 10"
definition default_border :: int where "default_border = 4"

text \<open>The two background strategies with their \<open>name\<close> and \<open>back_color()\<close>.\<close>

datatype background = WhiteBackground | TransparentBackground

fun name :: "background \<Rightarrow> string" where
  "name WhiteBackground = ''White''"
| "name TransparentBackground = ''Transparent''"

fun back_color :: "background \<Rightarrow> string" where
  "back_color WhiteBackground = ''white''"
| "back_color TransparentBackground = ''transparent''"

text \<open>The dataclass \<open>QRSpec\<close>; \<open>error_level\<close> is declared as a plain \<open>str\<close>.\<close>

record QRSpec =
  data :: string
  error_level :: string
  box_size :: int
  border :: int
  fill_color :: string
  background :: background

text \<open>
  The four error-correction constants imported from the encoding library, and the
  dictionary \<open>err_map\<close> that both commands build; \<open>dict_get\<close> is
  \<open>dict.get(key, default)\<close>.
\<close>

datatype ec_constant = ERROR_CORRECT_L | ERROR_CORRECT_M | ERROR_CORRECT_Q | ERROR_CORRECT_H

definition err_map :: "string \<rightharpoonup> ec_constant" where
  "err_map = [''L'' \<mapsto> ERROR_CORRECT_L, ''M'' \<mapsto> ERROR_CORRECT_M,
              ''Q'' \<mapsto> ERROR_CORRECT_Q, ''H'' \<mapsto> ERROR_CORRECT_H]"

definition dict_get :: "('k \<rightharpoonup> 'v) \<Rightarrow> 'k \<Rightarrow> 'v \<Rightarrow> 'v" where
  "dict_get m k d = (case m k of None \<Rightarrow> d | Some v \<Rightarrow> v)"

section \<open>Objects of the external libraries\<close>

text \<open>
  An exception carries its class name and the text \<open>str(e)\<close>.  A raster image has
  a mode and a size (width, height); an SVG image is the document the library will
  write.  A \<open>QRCode\<close> object keeps the constructor arguments and the data added
  to it.
\<close>

datatype exn = Exn string string

fun str_exn :: "exn \<Rightarrow> string" where
  "str_exn (Exn cls msg) = msg"

record image =
  mode :: string
  size_wh :: "nat \<times> nat"
  raster :: nat

record svg_image =
  svg_text :: string

datatype photo = Photo image

datatype factory = PilFactory | SvgFactory

datatype py_data = Text string | DataList "py_data list"

record qrcode =
  version :: "nat option"
  error_correction :: ec_constant
  qr_box_size :: int
  qr_border :: int
  image_factory :: factory
  data_list :: "py_data list"

text \<open>
  Every call into the encoding library, the image library and the file system is
  written to a journal.  What a call answers is not decided by this program: the
  answers are given by a record of response functions, one per library operation,
  and a call may answer with an exception.
\<close>

datatype lib_call =
    Call_QRCode "nat option" ec_constant int int factory
  | Call_add_data qrcode py_data
  | Call_make qrcode
  | Call_make_image qrcode string "string option"
  | Call_convert image string
  | Call_save image string string
  | Call_open_wb string
  | Call_save_stream svg_image string
  | Call_resize image "nat \<times> nat"
  | Call_PhotoImage image

record lib =
  QRCode_res :: "nat option \<Rightarrow> ec_constant \<Rightarrow> int \<Rightarrow> int \<Rightarrow> factory \<Rightarrow> exn + qrcode"
  add_data_res :: "qrcode \<Rightarrow> py_data \<Rightarrow> exn + qrcode"
  make_res :: "qrcode \<Rightarrow> exn + qrcode"
  make_image_res :: "qrcode \<Rightarrow> string \<Rightarrow> string option \<Rightarrow> exn + image"
  make_svg_res :: "qrcode \<Rightarrow> string \<Rightarrow> string option \<Rightarrow> exn + svg_image"
  convert_res :: "image \<Rightarrow> string \<Rightarrow> exn + image"
  save_res :: "image \<Rightarrow> string \<Rightarrow> string \<Rightarrow> exn + unit"
  open_wb_res :: "string \<Rightarrow> exn + unit"
  save_stream_res :: "svg_image \<Rightarrow> string \<Rightarrow> exn + unit"
  resize_res :: "image \<Rightarrow> nat \<times> nat \<Rightarrow> exn + image"
  PhotoImage_res :: "image \<Rightarrow> exn + photo"
  asksaveasfilename_res :: string

section \<open>The application object\<close>

text \<open>
  The dialogs of \<open>messagebox\<close> and \<open>filedialog\<close> that were opened, in order.
\<close>

datatype dialog =
    showwarning string string
  | showinfo string string
  | showerror string string
  | asksaveasfilename string

text \<open>The callbacks that are subscribed to the event bus: only the console writer.\<close>

datatype subscriber = console_write

text \<open>
  The fields of \<open>QRApp\<close>: the widget variables, the preview state, the label and
  status line, the text of the console pane and the subscriber list of the bus.
  Reading an \<open>IntVar\<close> fails when the spin box holds no number, so the two
  integer variables hold what \<open>get()\<close> answers.  The last two fields are the
  journals of the dialogs and of the library calls.
\<close>

record QRApp =
  input_var :: string
  ec_var :: string
  box_var :: "exn + int"
  border_var :: "exn + int"
  fill_var :: string
  bg_var :: string
  current_image :: "image option"
  current_qr :: "qrcode option"
  current_spec :: "QRSpec option"
  preview_photo :: "photo option"
  preview_label_image :: "photo option"
  preview_label_text :: string
  status_var :: string
  console_text :: string
  subs :: "subscriber list"
  dialogs :: "dialog list"
  lib_calls :: "lib_call list"

section \<open>Statements that change the application and may raise\<close>

text \<open>
  A statement takes the application object and gives a value or an exception
  together with the object as it is afterwards: what was changed before an exception
  stays changed.
\<close>

type_synonym 'a prog = "QRApp \<Rightarrow> (exn + 'a) \<times> QRApp"

definition pret :: "'a \<Rightarrow> 'a prog" where
  "pret v = (\<lambda>w. (Inr v, w))"

definition praise :: "exn \<Rightarrow> 'a prog" where
  "praise e = (\<lambda>w. (Inl e, w))"

definition pbind :: "'a prog \<Rightarrow> ('a \<Rightarrow> 'b prog) \<Rightarrow> 'b prog" where
  "pbind m f = (\<lambda>w. case m w of (Inl e, w') \<Rightarrow> (Inl e, w') | (Inr v, w') \<Rightarrow> f v w')"

text \<open>\<open>try: m except Exception as e: h e\<close>\<close>

definition ptry :: "'a prog \<Rightarrow> (exn \<Rightarrow> 'a prog) \<Rightarrow> 'a prog" where
  "ptry m h = (\<lambda>w. case m w of (Inl e, w') \<Rightarrow> h e w' | (Inr v, w') \<Rightarrow> (Inr v, w'))"

text \<open>A plain assignment to fields of the object, and a read that may raise.\<close>

definition modify :: "(QRApp \<Rightarrow> QRApp) \<Rightarrow> unit prog" where
  "modify f = (\<lambda>w. (Inr (), f w))"

definition reads :: "(QRApp \<Rightarrow> exn + 'a) \<Rightarrow> 'a prog" where
  "reads g = (\<lambda>w. (g w, w))"

definition extern :: "lib_call \<Rightarrow> exn + 'a \<Rightarrow> 'a prog" where
  "extern c r = (\<lambda>w. (r, w\<lparr>lib_calls := lib_calls w @ [c]\<rparr>))"

definition show_dialog :: "dialog \<Rightarrow> unit prog" where
  "show_dialog d = modify (\<lambda>w. w\<lparr>dialogs := dialogs w @ [d]\<rparr>)"

text \<open>The library operations, each one journalled.\<close>

definition QRCode :: "lib \<Rightarrow> nat option \<Rightarrow> ec_constant \<Rightarrow> int \<Rightarrow> int \<Rightarrow> factory \<Rightarrow> qrcode prog" where
  "QRCode L v ec bs bd fac = extern (Call_QRCode v ec bs bd fac) (QRCode_res L v ec bs bd fac)"

definition add_data :: "lib \<Rightarrow> qrcode \<Rightarrow> py_data \<Rightarrow> qrcode prog" where
  "add_data L qr d = extern (Call_add_data qr d) (add_data_res L qr d)"

definition make :: "lib \<Rightarrow> qrcode \<Rightarrow> qrcode prog" where
  "make L qr = extern (Call_make qr) (make_res L qr)"

definition make_image :: "lib \<Rightarrow> qrcode \<Rightarrow> string \<Rightarrow> string option \<Rightarrow> image prog" where
  "make_image L qr fill bg = extern (Call_make_image qr fill bg) (make_image_res L qr fill bg)"

definition make_image_svg :: "lib \<Rightarrow> qrcode \<Rightarrow> string \<Rightarrow> string option \<Rightarrow> svg_image prog" where
  "make_image_svg L qr fill bg = extern (Call_make_image qr fill bg) (make_svg_res L qr fill bg)"

definition convert :: "lib \<Rightarrow> image \<Rightarrow> string \<Rightarrow> image prog" where
  "convert L img m = extern (Call_convert img m) (convert_res L img m)"

definition save :: "lib \<Rightarrow> image \<Rightarrow> string \<Rightarrow> string \<Rightarrow> unit prog" where
  "save L img path fmt = extern (Call_save img path fmt) (save_res L img path fmt)"

definition open_wb :: "lib \<Rightarrow> string \<Rightarrow> unit prog" where
  "open_wb L path = extern (Call_open_wb path) (open_wb_res L path)"

definition save_stream :: "lib \<Rightarrow> svg_image \<Rightarrow> string \<Rightarrow> unit prog" where
  "save_stream L img path = extern (Call_save_stream img path) (save_stream_res L img path)"

definition resize :: "lib \<Rightarrow> image \<Rightarrow> nat \<times> nat \<Rightarrow> image prog" where
  "resize L img sz = extern (Call_resize img sz) (resize_res L img sz)"

definition PhotoImage :: "lib \<Rightarrow> image \<Rightarrow> photo prog" where
  "PhotoImage L img = extern (Call_PhotoImage img) (PhotoImage_res L img)"

section \<open>Event bus and console\<close>

text \<open>\<open>GuiLogger.write\<close> appends the message and a line feed to the console pane.\<close>

definition GuiLogger_write :: "string \<Rightarrow> unit prog" where
  "GuiLogger_write msg = modify (\<lambda>w. w\<lparr>console_text := console_text w @ msg @ [CHR 0x0A]\<rparr>)"

fun call_subscriber :: "subscriber \<Rightarrow> string \<Rightarrow> unit prog" where
  "call_subscriber console_write msg = GuiLogger_write msg"

fun publish_to :: "subscriber list \<Rightarrow> string \<Rightarrow> unit prog" where
  "publish_to [] message = pret ()"
| "publish_to (fn # fns) message = pbind (call_subscriber fn message) (\<lambda>_. publish_to fns message)"

definition publish :: "string \<Rightarrow> unit prog" where
  "publish message = (\<lambda>w. publish_to (subs w) message w)"

definition subscribe :: "subscriber \<Rightarrow> unit prog" where
  "subscribe fn = modify (\<lambda>w. w\<lparr>subs := subs w @ [fn]\<rparr>)"

section \<open>Floating-point arithmetic of the preview scaling\<close>

text \<open>
  A Python \<open>float\<close> is an IEEE binary64 number.  Its value is modelled as the
  rational number it denotes, and every operation rounds the exact result to the
  nearest number with a 53-bit significand, ties to the even significand.
  \<open>ilog2 x\<close> is the exponent \<open>k\<close> with \<open>2^k \<le> x < 2^(k+1)\<close> of a positive \<open>x\<close>.
  The exponent is not bounded here: the rounding is that of binary64 as long as the
  result is zero or its magnitude lies in the normal range from \<open>2^-1022\<close> up to
  \<open>2^1024\<close>.
\<close>

definition ilog2 :: "rat \<Rightarrow> int" where
  "ilog2 x =
     (case quotient_of x of (a, b) \<Rightarrow>
        let k = bitlen a - bitlen b
        in if 2 powi k \<le> x then k else k - 1)"

definition round_half_even :: "rat \<Rightarrow> int" where
  "round_half_even m =
     (let f = \<lfloor>m\<rfloor>; d = m - of_int f
      in if d < 1 / 2 then f
         else if 1 / 2 < d then f + 1
         else if even f then f else f + 1)"

definition fl_pos :: "rat \<Rightarrow> rat" where
  "fl_pos x = (let e = ilog2 x - 52 in of_int (round_half_even (x / 2 powi e)) * 2 powi e)"

definition fl :: "rat \<Rightarrow> rat" where
  "fl x = (if x = 0 then 0 else if x < 0 then - fl_pos (- x) else fl_pos x)"

definition normal_range :: "rat \<Rightarrow> bool" where
  "normal_range x \<longleftrightarrow> x = 0 \<or> (2 powi (- 1022) \<le> \<bar>x\<bar> \<and> \<bar>x\<bar> < 2 ^ 1024)"

text \<open>
  \<open>a / b\<close> on two integers is the correctly rounded quotient and raises on a zero
  divisor; \<open>n * x\<close> converts the integer to a float and rounds the product;
  \<open>int(x)\<close> cuts the fraction off.
\<close>

definition true_div :: "nat \<Rightarrow> nat \<Rightarrow> exn + rat" where
  "true_div a b =
     (if b = 0 then Inl (Exn ''ZeroDivisionError'' ''division by zero'')
      else Inr (fl (of_nat a / of_nat b)))"

definition int_times_float :: "nat \<Rightarrow> rat \<Rightarrow> rat" where
  "int_times_float n x = fl (fl (of_nat n) * x)"

definition int_of_float :: "rat \<Rightarrow> int" where
  "int_of_float x = (if 0 \<le> x then \<lfloor>x\<rfloor> else \<lceil>x\<rceil>)"

text \<open>
  The size of the displayed image, as \<open>QRApp.set_preview\<close> and \<open>_Preview.show\<close>
  both compute it from \<open>max_side\<close> and the size of the image:
  \<^verbatim>\<open>scale = min(max_side / max(w, h), 1.0)\<close>,
  \<^verbatim>\<open>new_size = (max(1, int(w * scale)), max(1, int(h * scale)))\<close>.
\<close>

definition new_size :: "nat \<Rightarrow> nat \<times> nat \<Rightarrow> exn + nat \<times> nat" where
  "new_size max_side wh =
     (case wh of (w, h) \<Rightarrow>
        (case true_div max_side (max w h) of
           Inl e \<Rightarrow> Inl e
         | Inr q \<Rightarrow>
             let scale = min q 1
             in Inr (nat (max 1 (int_of_float (int_times_float w scale))),
                     nat (max 1 (int_of_float (int_times_float h scale))))))"

section \<open>Decimal text of an integer\<close>

fun str_nat :: "nat \<Rightarrow> string" where
  "str_nat n =
     (if n < 10 then [char_of (48 + n)]
      else str_nat (n div 10) @ [char_of (48 + n mod 10)])"

declare str_nat.simps [simp del]

definition str_int :: "int \<Rightarrow> string" where
  "str_int i = (if i < 0 then CHR ''-'' # str_nat (nat (- i)) else str_nat (nat i))"

section \<open>The encoders\<close>

text \<open>
  \<open>PNGEncoder.save\<close> renders the image, converts it to RGBA if the transparent
  background was asked for, and writes it in PNG format.  \<open>SVGEncoder.save\<close>
  builds a second \<open>QRCode\<close> with the SVG image factory from the version, the
  error correction and the data list of the first, renders it without a background
  and writes it to the opened file.
\<close>

definition PNGEncoder_save ::
  "lib \<Rightarrow> qrcode \<Rightarrow> string \<Rightarrow> string \<Rightarrow> string \<Rightarrow> int \<Rightarrow> int \<Rightarrow> unit prog" where
  "PNGEncoder_save L qr path fill bg bs bd =
     pbind (make_image L qr fill (Some bg)) (\<lambda>img.
     pbind (if bg = ''transparent'' then convert L img ''RGBA'' else pret img) (\<lambda>img.
     save L img path ''PNG''))"

definition SVGEncoder_save ::
  "lib \<Rightarrow> qrcode \<Rightarrow> string \<Rightarrow> string \<Rightarrow> string \<Rightarrow> int \<Rightarrow> int \<Rightarrow> unit prog" where
  "SVGEncoder_save L qr path fill bg bs bd =
     pbind (QRCode L (version qr) (error_correction qr) bs bd SvgFactory) (\<lambda>svg_qr.
     pbind (add_data L svg_qr (DataList (data_list qr))) (\<lambda>svg_qr.
     pbind (make L svg_qr) (\<lambda>svg_qr.
     pbind (make_image_svg L svg_qr fill None) (\<lambda>img.
     pbind (open_wb L path) (\<lambda>_.
     save_stream L img path)))))"

fun encoder_save ::
  "encoder \<Rightarrow> lib \<Rightarrow> qrcode \<Rightarrow> string \<Rightarrow> string \<Rightarrow> string \<Rightarrow> int \<Rightarrow> int \<Rightarrow> unit prog" where
  "encoder_save PNGEncoder = PNGEncoder_save"
| "encoder_save SVGEncoder = SVGEncoder_save"

section \<open>Building the spec and showing the preview\<close>

text \<open>
  \<open>QRApp._build_spec\<close> reads the widget variables; the two integer reads may
  raise.  An empty fill colour is replaced by black.
\<close>

definition build_spec :: "QRApp \<Rightarrow> exn + QRSpec" where
  "build_spec w =
     (let bg_strategy = (if bg_var w = ''white'' then WhiteBackground else TransparentBackground)
      in case box_var w of
           Inl e \<Rightarrow> Inl e
         | Inr bs \<Rightarrow>
             (case border_var w of
                Inl e \<Rightarrow> Inl e
              | Inr bd \<Rightarrow>
                  Inr \<lparr>data = input_var w, error_level = ec_var w, box_size = bs, border = bd,
                       fill_color = (if fill_var w = [] then ''black'' else fill_var w),
                       background = bg_strategy\<rparr>))"

definition build_spec_stmt :: "QRSpec prog" where
  "build_spec_stmt = reads build_spec"

definition set_preview :: "lib \<Rightarrow> image option \<Rightarrow> qrcode option \<Rightarrow> unit prog" where
  "set_preview L img qr =
     pbind (modify (\<lambda>w. w\<lparr>current_image := img, current_qr := qr\<rparr>)) (\<lambda>_.
     pbind (case img of
              None \<Rightarrow> pret None
            | Some _ \<Rightarrow> pbind build_spec_stmt (\<lambda>spec. pret (Some spec))) (\<lambda>spec.
     pbind (modify (\<lambda>w. w\<lparr>current_spec := spec\<rparr>)) (\<lambda>_.
     (case img of
        None \<Rightarrow>
          modify (\<lambda>w. w\<lparr>preview_label_image := None, preview_label_text := ''No preview'',
                         preview_photo := None\<rparr>)
      | Some im \<Rightarrow>
          pbind (reads (\<lambda>_. new_size preview_max (size_wh im))) (\<lambda>sz.
          pbind (resize L im sz) (\<lambda>display_img.
          pbind (PhotoImage L display_img) (\<lambda>ph.
          modify (\<lambda>w. w\<lparr>preview_photo := Some ph, preview_label_image := Some ph,
                         status_var := ''Preview '' @ str_nat (fst sz) @ [CHR 0xD7]
                                       @ str_nat (snd sz)\<rparr>))))))))"

section \<open>The two commands\<close>

text \<open>
  \<open>GenerateQRCommand.execute\<close>: a text that is empty after stripping gives the
  warning and nothing else; otherwise the symbol is built with the mapped error
  correction, rendered, converted for display and handed to the preview.
\<close>

definition GenerateQRCommand_execute :: "lib \<Rightarrow> QRSpec \<Rightarrow> unit prog" where
  "GenerateQRCommand_execute L spec =
     (if strip (data spec) = [] then
        show_dialog (showwarning ''No input'' ''Please enter some text/URL to encode.'')
      else
        pbind (QRCode L None (dict_get err_map (error_level spec) ERROR_CORRECT_M)
                 (box_size spec) (border spec) PilFactory) (\<lambda>qr.
        pbind (add_data L qr (Text (data spec))) (\<lambda>qr.
        pbind (make L qr) (\<lambda>qr.
        pbind (make_image L qr (fill_color spec) (Some (back_color (background spec)))) (\<lambda>img.
        pbind (ptry (convert L img ''RGBA'') (\<lambda>_. convert L img ''RGB'')) (\<lambda>img.
        pbind (set_preview L (Some img) (Some qr)) (\<lambda>_.
        publish (''Generated QR (EC='' @ error_level spec @ '', box='' @ str_int (box_size spec)
                 @ '', border='' @ str_int (border spec) @ '', bg='' @ name (background spec)
                 @ '').''))))))))"

text \<open>
  \<open>SaveQRCommand.execute\<close>: nothing to save without a symbol; a cancelled file
  dialog ends the command; the encoder is chosen from the text after the last dot
  of the path; the symbol is rebuilt from the stored spec and saved inside
  \<open>try\<close>, and the handler reports any exception.
\<close>

definition save_body :: "lib \<Rightarrow> encoder \<Rightarrow> string \<Rightarrow> unit prog" where
  "save_body L encoder path =
     pbind (reads (\<lambda>w. case current_spec w of
                   None \<Rightarrow> Inl (Exn ''AttributeError''
                              ([CHR 0x27] @ ''NoneType'' @ [CHR 0x27]
                               @ '' object has no attribute ''
                               @ [CHR 0x27] @ ''error_level'' @ [CHR 0x27]))
                 | Some spec \<Rightarrow> Inr spec)) (\<lambda>spec.
     pbind (QRCode L None (dict_get err_map (error_level spec) ERROR_CORRECT_M)
              (box_size spec) (border spec) PilFactory) (\<lambda>qr.
     pbind (add_data L qr (Text (data spec))) (\<lambda>qr.
     pbind (make L qr) (\<lambda>qr.
     pbind (encoder_save encoder L qr path (fill_color spec) (back_color (background spec))
              (box_size spec) (border spec)) (\<lambda>_.
     pbind (publish (''Saved QR to '' @ path)) (\<lambda>_.
     show_dialog (showinfo ''Saved'' (''QR code saved:'' @ [CHR 0x0A] @ path))))))))"

definition save_handler :: "exn \<Rightarrow> unit prog" where
  "save_handler e =
     pbind (publish (''ERROR saving: '' @ str_exn e)) (\<lambda>_.
     show_dialog (showerror ''Save failed'' (''Could not save file:'' @ [CHR 0x0A] @ str_exn e)))"

definition SaveQRCommand_execute :: "lib \<Rightarrow> unit prog" where
  "SaveQRCommand_execute L =
     (\<lambda>w. if current_qr w = None then
             show_dialog (showinfo ''Nothing to save'' ''Generate a QR code first.'') w
           else
             pbind (show_dialog (asksaveasfilename ''Save QR code'')) (\<lambda>_.
               let path = asksaveasfilename_res L
               in if path = [] then pret ()
                  else
                    let encoder = for_extension (last (split_dot path))
                    in ptry (save_body L encoder path) save_handler) w)"

section \<open>The actions of the window\<close>




text \<open>
  The application right after \<open>QRApp.__init__\<close>: the widget variables hold their
  defaults, nothing is previewed, the console writer is the one subscriber of the
  bus and the greeting has been published.
\<close>

definition init_QRApp :: QRApp where
  "init_QRApp =
     \<lparr>input_var = [], ec_var = ''M'', box_var = Inr default_box_size,
      border_var = Inr default_border, fill_var = ''black'', bg_var = ''white'',
      current_image = None, current_qr = None, current_spec = None,
      preview_photo = None, preview_label_image = None, preview_label_text = [],
      status_var = ''Ready'',
      console_text = ''Ready. Enter your text (e.g., https://github.com/your-username) and press Generate.''
                     @ [CHR 0x0A],
      subs = [console_write], dialogs = [], lib_calls = []\<rparr>"

text \<open>The values that the read-only combo box of the error correction offers.\<close>

definition ec_values :: "string list" where
  "ec_values = [''L'', ''M'', ''Q'', ''H'']"

section \<open>Sample answers of the libraries\<close>

text \<open>
  One possible behaviour of the libraries, used for the concrete runs below: every
  call succeeds, a symbol has version 1 (21 modules a side), black on white is
  rendered as a 1-bit image, a transparent background as RGBA and anything else as
  RGB, and the file dialog answers \<open>qr.png\<close>.
\<close>

definition sample_lib :: lib where
  "sample_lib =
     \<lparr>QRCode_res = (\<lambda>v ec bs bd fac.
        Inr \<lparr>version = v, error_correction = ec, qr_box_size = bs, qr_border = bd,
             image_factory = fac, data_list = []\<rparr>),
      add_data_res = (\<lambda>qr d. Inr (qr\<lparr>data_list := data_list qr @ [d]\<rparr>)),
      make_res = (\<lambda>qr. Inr (qr\<lparr>version := Some (case version qr of None \<Rightarrow> 1 | Some v \<Rightarrow> v)\<rparr>)),
      make_image_res = (\<lambda>qr fill bg.
        Inr \<lparr>mode = (if lower fill = ''black'' \<and> map_option lower bg = Some ''white'' then ''1''
                     else if map_option lower bg = Some ''transparent'' then ''RGBA''
                     else ''RGB''),
             size_wh = (nat ((21 + 2 * qr_border qr) * qr_box_size qr),
                        nat ((21 + 2 * qr_border qr) * qr_box_size qr)),
             raster = 0\<rparr>),
      make_svg_res = (\<lambda>qr fill bg. Inr \<lparr>svg_text = ''<svg/>''\<rparr>),
      convert_res = (\<lambda>img m. Inr (img\<lparr>mode := m\<rparr>)),
      save_res = (\<lambda>img path fmt. Inr ()),
      open_wb_res = (\<lambda>path. Inr ()),
      save_stream_res = (\<lambda>img path. Inr ()),
      resize_res = (\<lambda>img sz. Inr (img\<lparr>size_wh := sz\<rparr>)),
      PhotoImage_res = (\<lambda>img. Inr (Photo img)),
      asksaveasfilename_res = ''qr.png''\<rparr>"

text \<open>A symbol as the sample library leaves it after \<open>make\<close>.\<close>

definition sample_qr :: qrcode where
  "sample_qr =
     \<lparr>version = Some 1, error_correction = ERROR_CORRECT_M, qr_box_size = 10, qr_border = 4,
      image_factory = PilFactory, data_list = [Text ''hello'']\<rparr>"

text \<open>
  The application after the user has typed \<open>hello\<close> and pressed Generate, with
  the sample library (lemma \<open>on_generate_sample\<close> below runs the action); and a
  library that differs from the sample in one point: writing a raster image to a
  file fails.
\<close>

definition generated_app :: QRApp where
  "generated_app =
     init_QRApp\<lparr>input_var := ''hello'',
       current_image := Some \<lparr>mode = ''RGBA'', size_wh = (290, 290), raster = 0\<rparr>,
       current_qr := Some sample_qr,
       current_spec := Some \<lparr>data = ''hello'', error_level = ''M'', box_size = 10, border = 4,
                               fill_color = ''black'', background = WhiteBackground\<rparr>,
       preview_photo := Some (Photo \<lparr>mode = ''RGBA'', size_wh = (290, 290), raster = 0\<rparr>),
       preview_label_image := Some (Photo \<lparr>mode = ''RGBA'', size_wh = (290, 290), raster = 0\<rparr>),
       status_var := ''Preview 290'' @ [CHR 0xD7] @ ''290'',
       console_text := console_text init_QRApp
                       @ ''Generated QR (EC=M, box=10, border=4, bg=White).'' @ [CHR 0x0A],
       lib_calls :=
         [Call_QRCode None ERROR_CORRECT_M 10 4 PilFactory,
          Call_add_data \<lparr>version = None, error_correction = ERROR_CORRECT_M, qr_box_size = 10,
                          qr_border = 4, image_factory = PilFactory, data_list = []\<rparr>
            (Text ''hello''),
          Call_make \<lparr>version = None, error_correction = ERROR_CORRECT_M, qr_box_size = 10,
                      qr_border = 4, image_factory = PilFactory, data_list = [Text ''hello'']\<rparr>,
          Call_make_image sample_qr ''black'' (Some ''white''),
          Call_convert \<lparr>mode = ''1'', size_wh = (290, 290), raster = 0\<rparr> ''RGBA'',
          Call_resize \<lparr>mode = ''RGBA'', size_wh = (290, 290), raster = 0\<rparr> (290, 290),
          Call_PhotoImage \<lparr>mode = ''RGBA'', size_wh = (290, 290), raster = 0\<rparr>]\<rparr>"


definition failing_lib :: lib where
  "failing_lib =
     sample_lib\<lparr>save_res := (\<lambda>img path fmt. Inl (Exn ''PermissionError'' ''[Errno 13] Permission denied''))\<rparr>"

section \<open>Frame conditions\<close>

text \<open>
  Two ways to say what a statement leaves alone: it only adds calls at the end of
  the journal, and the object before and the object after are related by \<open>R\<close>.
\<close>

definition keeps_journal :: "'a prog \<Rightarrow> bool" where
  "keeps_journal m \<longleftrightarrow> (\<forall>w. \<exists>cs. lib_calls (snd (m w)) = lib_calls w @ cs)"






text \<open>
  A statement that only talks to the libraries: its answer and the calls it adds
  to the journal are the same whatever the application object is, and it changes
  nothing but the journal.
\<close>

definition lib_only :: "'a prog \<Rightarrow> bool" where
  "lib_only m \<longleftrightarrow> (\<exists>r cs. \<forall>w. m w = (r, w\<lparr>lib_calls := lib_calls w @ cs\<rparr>))"

text \<open>The first call that a statement adds to the journal, if it adds any.\<close>

definition first_new_call :: "'a prog \<Rightarrow> QRApp \<Rightarrow> lib_call option" where
  "first_new_call m w =
     (case drop (length (lib_calls w)) (lib_calls (snd (m w))) of
        [] \<Rightarrow> None
      | c # _ \<Rightarrow> Some c)"



section \<open>Evaluations used in the concrete runs\<close>



lemma strip_hello: "strip ''hello'' = ''hello''"
  by code_simp

lemma lower_sample: "lower ''black'' = ''black''" "lower ''white'' = ''white''"
  by code_simp+

section \<open>The journal only grows\<close>

lemma keeps_journalI: "(\<And>w. \<exists>cs. lib_calls (snd (m w)) = lib_calls w @ cs) \<Longrightarrow> keeps_journal m"
  by (simp add: keeps_journal_def)

lemma keeps_journalD: "keeps_journal m \<Longrightarrow> \<exists>cs. lib_calls (snd (m w)) = lib_calls w @ cs"
  by (simp add: keeps_journal_def)

lemma keeps_pret [simp]: "keeps_journal (pret v)"
  by (simp add: keeps_journal_def pret_def)

lemma keeps_reads [simp]: "keeps_journal (reads g)"
  by (simp add: keeps_journal_def reads_def)

lemma keeps_modify: "(\<And>w. lib_calls (f w) = lib_calls w) \<Longrightarrow> keeps_journal (modify f)"
  by (simp add: keeps_journal_def modify_def)

lemma keeps_extern [simp]: "keeps_journal (extern c r)"
  by (simp add: keeps_journal_def extern_def)

lemma keeps_show_dialog [simp]: "keeps_journal (show_dialog d)"
  by (simp add: show_dialog_def keeps_modify)

lemma keeps_pbind:
  assumes "keeps_journal m" "\<And>v. keeps_journal (f v)"
  shows "keeps_journal (pbind m f)"
proof (rule keeps_journalI)
  fix w
  obtain r w1 where mw: "m w = (r, w1)" by (cases "m w")
  from keeps_journalD[OF assms(1), of w] mw obtain cs where cs: "lib_calls w1 = lib_calls w @ cs"
    by auto
  show "\<exists>cs. lib_calls (snd (pbind m f w)) = lib_calls w @ cs"
  proof (cases r)
    case (Inl e)
    with mw cs show ?thesis by (simp add: pbind_def)
  next
    case (Inr v)
    from keeps_journalD[OF assms(2), of v w1] obtain ds
      where "lib_calls (snd (f v w1)) = lib_calls w1 @ ds" by auto
    with Inr mw cs show ?thesis by (simp add: pbind_def)
  qed
qed

lemma keeps_ptry:
  assumes "keeps_journal m" "\<And>e. keeps_journal (h e)"
  shows "keeps_journal (ptry m h)"
proof (rule keeps_journalI)
  fix w
  obtain r w1 where mw: "m w = (r, w1)" by (cases "m w")
  from keeps_journalD[OF assms(1), of w] mw obtain cs where cs: "lib_calls w1 = lib_calls w @ cs"
    by auto
  show "\<exists>cs. lib_calls (snd (ptry m h w)) = lib_calls w @ cs"
  proof (cases r)
    case (Inr v)
    with mw cs show ?thesis by (simp add: ptry_def)
  next
    case (Inl e)
    from keeps_journalD[OF assms(2), of e w1] obtain ds
      where "lib_calls (snd (h e w1)) = lib_calls w1 @ ds" by auto
    with Inl mw cs show ?thesis by (simp add: ptry_def)
  qed
qed

lemma keeps_publish_to [simp]: "keeps_journal (publish_to fns msg)"
proof (induction fns)
  case Nil
  show ?case by simp
next
  case (Cons fn fns)
  have "keeps_journal (call_subscriber fn msg)"
    by (cases fn) (simp add: GuiLogger_write_def keeps_modify)
  with Cons show ?case by (simp add: keeps_pbind)
qed

lemma keeps_publish [simp]: "keeps_journal (publish msg)"
proof (rule keeps_journalI)
  fix w
  from keeps_journalD[OF keeps_publish_to, of "subs w" msg w]
  show "\<exists>cs. lib_calls (snd (publish msg w)) = lib_calls w @ cs"
    by (simp add: publish_def)
qed

lemma keeps_lib_ops [simp]:
  "keeps_journal (QRCode L v ec bs bd fac)"
  "keeps_journal (add_data L qr d)"
  "keeps_journal (make L qr)"
  "keeps_journal (make_image L qr fill bg)"
  "keeps_journal (make_image_svg L qr fill bg)"
  "keeps_journal (convert L img md)"
  "keeps_journal (save L img path fmt)"
  "keeps_journal (open_wb L path)"
  "keeps_journal (save_stream L simg path)"
  "keeps_journal (resize L img sz)"
  "keeps_journal (PhotoImage L img)"
  by (simp_all add: QRCode_def add_data_def make_def make_image_def make_image_svg_def
      convert_def save_def open_wb_def save_stream_def resize_def PhotoImage_def)

lemma keeps_PNGEncoder_save [simp]: "keeps_journal (PNGEncoder_save L qr path fill bg bs bd)"
  unfolding PNGEncoder_save_def by (intro keeps_pbind) simp_all

lemma keeps_SVGEncoder_save [simp]: "keeps_journal (SVGEncoder_save L qr path fill bg bs bd)"
  unfolding SVGEncoder_save_def by (intro keeps_pbind) simp_all

lemma keeps_encoder_save [simp]: "keeps_journal (encoder_save enc L qr path fill bg bs bd)"
  by (cases enc) simp_all

lemma keeps_build_spec_stmt [simp]: "keeps_journal build_spec_stmt"
  by (simp add: build_spec_stmt_def)

lemma keeps_set_preview [simp]: "keeps_journal (set_preview L img qr)"
proof (cases img)
  case None
  then show ?thesis
    unfolding set_preview_def by (intro keeps_pbind) (simp_all add: keeps_modify)
next
  case (Some im)
  then show ?thesis
    unfolding set_preview_def by (simp, intro keeps_pbind) (simp_all add: keeps_modify)
qed

lemma keeps_generate_tail:
  "keeps_journal
     (pbind (add_data L qr (Text (data spec))) (\<lambda>qr.
      pbind (make L qr) (\<lambda>qr.
      pbind (make_image L qr (fill_color spec) (Some (back_color (background spec)))) (\<lambda>img.
      pbind (ptry (convert L img ''RGBA'') (\<lambda>_. convert L img ''RGB'')) (\<lambda>img.
      pbind (set_preview L (Some img) (Some qr)) (\<lambda>_. publish msg))))))"
  by (intro keeps_pbind keeps_ptry) simp_all

lemma pbind_extern_journal:
  assumes "\<And>v. keeps_journal (f v)"
  shows "\<exists>rest. lib_calls (snd (pbind (extern c r) f w)) = lib_calls w @ c # rest"
proof (cases r)
  case (Inl e)
  then show ?thesis by (simp add: pbind_def extern_def)
next
  case (Inr v)
  from keeps_journalD[OF assms, of v "w\<lparr>lib_calls := lib_calls w @ [c]\<rparr>"]
  obtain cs where "lib_calls (snd (f v (w\<lparr>lib_calls := lib_calls w @ [c]\<rparr>))) = (lib_calls w @ [c]) @ cs"
    by auto
  with Inr show ?thesis by (simp add: pbind_def extern_def)
qed

lemma generate_first_call:
  assumes "strip (data spec) \<noteq> []"
  shows "\<exists>rest. lib_calls (snd (GenerateQRCommand_execute L spec w)) =
           lib_calls w @ Call_QRCode None (dict_get err_map (error_level spec) ERROR_CORRECT_M)
                            (box_size spec) (border spec) PilFactory # rest"
  using assms unfolding GenerateQRCommand_execute_def QRCode_def
  by (simp add: pbind_extern_journal keeps_generate_tail)

lemma save_body_first_call:
  assumes "current_spec w = Some spec"
  shows "\<exists>rest. lib_calls (snd (save_body L enc path w)) =
           lib_calls w @ Call_QRCode None (dict_get err_map (error_level spec) ERROR_CORRECT_M)
                            (box_size spec) (border spec) PilFactory # rest"
proof -
  have k: "\<And>qr. keeps_journal
     (pbind (add_data L qr (Text (data spec))) (\<lambda>qr.
      pbind (make L qr) (\<lambda>qr.
      pbind (encoder_save enc L qr path (fill_color spec) (back_color (background spec))
              (box_size spec) (border spec)) (\<lambda>_.
      pbind (publish (''Saved QR to '' @ path)) (\<lambda>_.
      show_dialog (showinfo ''Saved'' (''QR code saved:'' @ [CHR 0x0A] @ path)))))))"
    by (intro keeps_pbind) simp_all
  have "save_body L enc path w =
        pbind (QRCode L None (dict_get err_map (error_level spec) ERROR_CORRECT_M)
              (box_size spec) (border spec) PilFactory) (\<lambda>qr.
     pbind (add_data L qr (Text (data spec))) (\<lambda>qr.
     pbind (make L qr) (\<lambda>qr.
     pbind (encoder_save enc L qr path (fill_color spec) (back_color (background spec))
              (box_size spec) (border spec)) (\<lambda>_.
     pbind (publish (''Saved QR to '' @ path)) (\<lambda>_.
     show_dialog (showinfo ''Saved'' (''QR code saved:'' @ [CHR 0x0A] @ path))))))) w"
    using assms unfolding save_body_def by (simp add: pbind_def reads_def)
  then show ?thesis
    unfolding QRCode_def using pbind_extern_journal[OF k] by simp
qed

section \<open>What publishing and the dialogs do\<close>

lemma publish_to_eq:
  "publish_to fns msg w =
     (Inr (), w\<lparr>console_text := console_text w @ concat (map (\<lambda>_. msg @ [CHR 0x0A]) fns)\<rparr>)"
proof (induction fns arbitrary: w)
  case Nil
  show ?case by (simp add: pret_def)
next
  case (Cons fn fns)
  show ?case
    by (cases fn) (simp add: pbind_def GuiLogger_write_def modify_def Cons.IH)
qed

lemma publish_eq:
  "publish msg w =
     (Inr (), w\<lparr>console_text := console_text w @ concat (map (\<lambda>_. msg @ [CHR 0x0A]) (subs w))\<rparr>)"
  by (simp add: publish_def publish_to_eq)

lemma publish_one_subscriber:
  "subs w = [console_write] \<Longrightarrow>
   publish msg w = (Inr (), w\<lparr>console_text := console_text w @ msg @ [CHR 0x0A]\<rparr>)"
  by (simp add: publish_eq)

lemma show_dialog_eq: "show_dialog d w = (Inr (), w\<lparr>dialogs := dialogs w @ [d]\<rparr>)"
  by (simp add: show_dialog_def modify_def)

lemma save_handler_eq:
  "save_handler e w =
     (Inr (), w\<lparr>console_text := console_text w
                   @ concat (map (\<lambda>_. ''ERROR saving: '' @ str_exn e @ [CHR 0x0A]) (subs w)),
                 dialogs := dialogs w @ [showerror ''Save failed''
                   (''Could not save file:'' @ [CHR 0x0A] @ str_exn e)]\<rparr>)"
  by (simp add: save_handler_def pbind_def publish_eq show_dialog_eq)

section \<open>The encoder factory\<close>

lemma lower_char_eq_iff:
  "lower_char c = d \<longleftrightarrow>
     (let n = (of_char c :: nat)
      in if (65 \<le> n \<and> n \<le> 90) \<or> (192 \<le> n \<and> n \<le> 222 \<and> n \<noteq> 215)
         then n + 32 = of_char d else c = d)"
proof -
  let ?n = "of_char c :: nat"
  have up: "(char_of (?n + 32) = d) \<longleftrightarrow> (?n + 32 = of_char d)" if "?n + 32 < 256"
  proof
    assume "char_of (?n + 32) = d"
    then have "(of_char (char_of (?n + 32) :: char) :: nat) = of_char d" by simp
    then show "?n + 32 = of_char d" using that by (simp add: of_char_of)
  next
    assume "?n + 32 = of_char d"
    then show "char_of (?n + 32) = d" by (metis char_of_char)
  qed
  show ?thesis
  proof (cases "(65 \<le> ?n \<and> ?n \<le> 90) \<or> (192 \<le> ?n \<and> ?n \<le> 222 \<and> ?n \<noteq> 215)")
    case True
    then have "?n + 32 < 256" by auto
    from up[OF this] show ?thesis
      by (simp only: lower_char_def Let_def if_P[OF True])
  next
    case False
    show ?thesis
      by (simp only: lower_char_def Let_def if_not_P[OF False])
  qed
qed

lemma char_eq_code: "c = d \<longleftrightarrow> (of_char c :: nat) = of_char d"
  by (metis of_char_eq_iff)

lemma lower_char_dot: "lower_char c = CHR ''.'' \<longleftrightarrow> c = CHR ''.''"
  by (auto simp: lower_char_eq_iff Let_def char_eq_code[of c])

lemma lower_char_letter:
  "lower_char c = CHR ''p'' \<longleftrightarrow> c = CHR ''p'' \<or> c = CHR ''P''"
  "lower_char c = CHR ''n'' \<longleftrightarrow> c = CHR ''n'' \<or> c = CHR ''N''"
  "lower_char c = CHR ''g'' \<longleftrightarrow> c = CHR ''g'' \<or> c = CHR ''G''"
  "lower_char c = CHR ''s'' \<longleftrightarrow> c = CHR ''s'' \<or> c = CHR ''S''"
  "lower_char c = CHR ''v'' \<longleftrightarrow> c = CHR ''v'' \<or> c = CHR ''V''"
  by (auto simp: lower_char_eq_iff Let_def char_eq_code[of c])

lemma lstrip_dot_lower: "lstrip_dot (lower x) = lower (lstrip_dot x)"
  by (simp add: lstrip_dot_def lower_def dropWhile_map comp_def lower_char_dot)

lemma lower_eq_three:
  "lower s = [a, b, c] \<longleftrightarrow>
     (\<exists>x y z. s = [x, y, z] \<and> lower_char x = a \<and> lower_char y = b \<and> lower_char z = c)"
  by (auto simp: lower_def map_eq_Cons_conv)

lemma stripped_lower_png_iff:
  "lstrip_dot (lower x) = ''png'' \<longleftrightarrow>
     (\<exists>a b c. lstrip_dot x = [a, b, c] \<and> a \<in> {CHR ''p'', CHR ''P''}
        \<and> b \<in> {CHR ''n'', CHR ''N''} \<and> c \<in> {CHR ''g'', CHR ''G''})"
  by (simp add: lstrip_dot_lower lower_eq_three lower_char_letter)

lemma stripped_lower_svg_iff:
  "lstrip_dot (lower x) = ''svg'' \<longleftrightarrow>
     (\<exists>a b c. lstrip_dot x = [a, b, c] \<and> a \<in> {CHR ''s'', CHR ''S''}
        \<and> b \<in> {CHR ''v'', CHR ''V''} \<and> c \<in> {CHR ''g'', CHR ''G''})"
  by (simp add: lstrip_dot_lower lower_eq_three lower_char_letter)

lemma dots_then_stripped: "x = replicate (length (takeWhile (\<lambda>c. c = CHR ''.'') x)) (CHR ''.'') @ lstrip_dot x"
proof -
  have "takeWhile (\<lambda>c. c = CHR ''.'') x = replicate (length (takeWhile (\<lambda>c. c = CHR ''.'') x)) (CHR ''.'')"
    by (induction x) auto
  then show ?thesis
    unfolding lstrip_dot_def by (metis takeWhile_dropWhile_id)
qed

text \<open>
  C5.  The factory maps an extension to an encoder in two cases: when the extension,
  put in lower case and with its leading dots removed, is \<open>png\<close> it returns the
  PNG encoder, and when it is \<open>svg\<close> it returns the SVG encoder.
\<close>

theorem for_extension_png_svg:
  "(lstrip_dot (lower x) = ''png'' \<longrightarrow> for_extension x = PNGEncoder) \<and>
   (lstrip_dot (lower x) = ''svg'' \<longrightarrow> for_extension x = SVGEncoder)"
  by (simp add: for_extension_def)

theorem for_extension_png_svg_witness:
  "lstrip_dot (lower ''.PNG'') = ''png'' \<and> for_extension ''.PNG'' = PNGEncoder \<and>
   lstrip_dot (lower ''Svg'') = ''svg'' \<and> for_extension ''Svg'' = SVGEncoder"
proof -
  have p: "lstrip_dot (lower ''.PNG'') = ''png''"
    by code_simp
  have s: "lstrip_dot (lower ''Svg'') = ''svg''"
    by code_simp
  from for_extension_png_svg[of "''.PNG''"] p have 1: "for_extension ''.PNG'' = PNGEncoder"
    by blast
  from for_extension_png_svg[of "''Svg''"] s have 2: "for_extension ''Svg'' = SVGEncoder"
    by blast
  from p s 1 2 show ?thesis by blast
qed

lemma for_extension_svg_iff:
  "for_extension x = SVGEncoder \<longleftrightarrow>
     (\<exists>a b c. lstrip_dot x = [a, b, c] \<and> a \<in> {CHR ''s'', CHR ''S''}
        \<and> b \<in> {CHR ''v'', CHR ''V''} \<and> c \<in> {CHR ''g'', CHR ''G''})"
proof -
  have "for_extension x = SVGEncoder \<longleftrightarrow> lstrip_dot (lower x) = ''svg''"
    by (simp add: for_extension_def Let_def)
  then show ?thesis by (simp only: stripped_lower_svg_iff)
qed

section \<open>What the PNG encoder writes\<close>

lemma PNGEncoder_save_opaque:
  assumes "bg \<noteq> ''transparent''" "make_image_res L qr fill (Some bg) = Inr img"
  shows "PNGEncoder_save L qr path fill bg bs bd w =
           (save_res L img path ''PNG'',
            w\<lparr>lib_calls := lib_calls w @ [Call_make_image qr fill (Some bg),
                                           Call_save img path ''PNG'']\<rparr>)"
  using assms
  by (simp add: PNGEncoder_save_def pbind_def pret_def make_image_def save_def extern_def)

lemma PNGEncoder_save_transparent:
  assumes "bg = ''transparent''" "make_image_res L qr fill (Some bg) = Inr img"
    "convert_res L img ''RGBA'' = Inr img'"
  shows "PNGEncoder_save L qr path fill bg bs bd w =
           (save_res L img' path ''PNG'',
            w\<lparr>lib_calls := lib_calls w @ [Call_make_image qr fill (Some bg),
                                           Call_convert img ''RGBA'',
                                           Call_save img' path ''PNG'']\<rparr>)"
  using assms
  by (simp add: PNGEncoder_save_def pbind_def pret_def make_image_def convert_def save_def
      extern_def)

lemma PNGEncoder_save_success:
  assumes "fst (PNGEncoder_save L qr path fill bg bs bd w) = Inr ()"
  shows "\<exists>img cs. lib_calls (snd (PNGEncoder_save L qr path fill bg bs bd w)) =
           lib_calls w @ cs @ [Call_save img path ''PNG'']"
proof -
  obtain img where mi: "make_image_res L qr fill (Some bg) = Inr img"
    using assms
    by (cases "make_image_res L qr fill (Some bg)")
       (simp_all add: PNGEncoder_save_def pbind_def make_image_def extern_def)
  show ?thesis
  proof (cases "bg = ''transparent''")
    case False
    from PNGEncoder_save_opaque[OF False mi, of path bs bd w] show ?thesis
      by (intro exI[of _ img] exI[of _ "[Call_make_image qr fill (Some bg)]"]) simp
  next
    case True
    obtain img' where cv: "convert_res L img ''RGBA'' = Inr img'"
      using assms True mi
      by (cases "convert_res L img ''RGBA''")
         (simp_all add: PNGEncoder_save_def pbind_def make_image_def convert_def extern_def)
    from PNGEncoder_save_transparent[OF True mi cv, of path bs bd w] show ?thesis
      by (intro exI[of _ img'] exI[of _ "[Call_make_image qr fill (Some bg), Call_convert img ''RGBA'']"]) simp
  qed
qed

text \<open>
  C9.  An extension that is neither \<open>png\<close> nor \<open>svg\<close> after lower-casing and
  removing the leading dots gets the PNG encoder, and whenever that encoder saves
  successfully the last library call has written the image in PNG format.
\<close>

theorem for_extension_unknown_is_png:
  assumes "lstrip_dot (lower x) \<noteq> ''png''" "lstrip_dot (lower x) \<noteq> ''svg''"
  shows "for_extension x = PNGEncoder \<and>
         (fst (encoder_save (for_extension x) L qr path fill bg bs bd w) = Inr () \<longrightarrow>
          (\<exists>img cs. lib_calls (snd (encoder_save (for_extension x) L qr path fill bg bs bd w)) =
                      lib_calls w @ cs @ [Call_save img path ''PNG'']))"
proof -
  from assms have e: "for_extension x = PNGEncoder"
    by (simp add: for_extension_def)
  show ?thesis
    unfolding e using PNGEncoder_save_success[of L qr path fill bg bs bd w] by simp
qed

lemma t1: "fst (encoder_save (for_extension []) sample_lib sample_qr ''qr'' ''black'' ''white'' 10 4 init_QRApp) = Inr ()"
  by code_simp

theorem for_extension_unknown_is_png_witness:
  "lstrip_dot (lower ''jpeg'') \<noteq> ''png'' \<and> lstrip_dot (lower ''jpeg'') \<noteq> ''svg'' \<and>
   for_extension ''jpeg'' = PNGEncoder \<and>
   fst (encoder_save (for_extension ''jpeg'') sample_lib sample_qr ''qr.jpeg'' ''black'' ''white'' 10 4
          init_QRApp) = Inr () \<and>
   (\<exists>img cs. lib_calls (snd (encoder_save (for_extension ''jpeg'') sample_lib sample_qr ''qr.jpeg''
                               ''black'' ''white'' 10 4 init_QRApp)) =
               lib_calls init_QRApp @ cs @ [Call_save img ''qr.jpeg'' ''PNG''])"
proof -
  have a: "lstrip_dot (lower ''jpeg'') \<noteq> ''png''" by code_simp
  have b: "lstrip_dot (lower ''jpeg'') \<noteq> ''svg''" by code_simp
  have c: "fst (encoder_save (for_extension ''jpeg'') sample_lib sample_qr ''qr.jpeg'' ''black'' ''white'' 10 4
          init_QRApp) = Inr ()" by code_simp
  from for_extension_unknown_is_png[OF a b, of sample_lib sample_qr "''qr.jpeg''" "''black''"
      "''white''" 10 4 init_QRApp] a b c
  show ?thesis by blast
qed

section \<open>Generating from an empty text\<close>

lemma generate_blank_text_warns:
  assumes "strip (data spec) = []"
  shows "GenerateQRCommand_execute L spec w =
           (Inr (), w\<lparr>dialogs := dialogs w
                         @ [showwarning ''No input'' ''Please enter some text/URL to encode.'']\<rparr>)"
  using assms by (simp add: GenerateQRCommand_execute_def show_dialog_eq)

text \<open>
  C1.  When the text of the spec is empty, the Generate command opens the warning
  dialog and returns normally; the journal of library calls and the preview state
  (\<open>current_image\<close>, \<open>current_qr\<close>, \<open>current_spec\<close>) are as before, and so is
  every other field: the only change is the new entry in the list of dialogs.
\<close>

theorem generate_empty_text_warns:
  assumes "data spec = []"
  shows "GenerateQRCommand_execute L spec w =
           (Inr (), w\<lparr>dialogs := dialogs w
                         @ [showwarning ''No input'' ''Please enter some text/URL to encode.'']\<rparr>)
         \<and> lib_calls (snd (GenerateQRCommand_execute L spec w)) = lib_calls w
         \<and> current_image (snd (GenerateQRCommand_execute L spec w)) = current_image w
         \<and> current_qr (snd (GenerateQRCommand_execute L spec w)) = current_qr w
         \<and> current_spec (snd (GenerateQRCommand_execute L spec w)) = current_spec w"
  using assms by (simp add: GenerateQRCommand_execute_def strip_def show_dialog_eq)

theorem generate_empty_text_warns_witness:
  "data \<lparr>data = [], error_level = ''M'', box_size = 10, border = 4, fill_color = ''black'',
         background = WhiteBackground\<rparr> = [] \<and>
   GenerateQRCommand_execute sample_lib
     \<lparr>data = [], error_level = ''M'', box_size = 10, border = 4, fill_color = ''black'',
      background = WhiteBackground\<rparr> init_QRApp =
     (Inr (), init_QRApp\<lparr>dialogs := dialogs init_QRApp
                @ [showwarning ''No input'' ''Please enter some text/URL to encode.'']\<rparr>)"
proof -
  let ?spec = "\<lparr>data = [], error_level = ''M'', box_size = 10, border = 4, fill_color = ''black'',
         background = WhiteBackground\<rparr>"
  have h: "data ?spec = []" by simp
  from generate_empty_text_warns[OF h, of sample_lib init_QRApp] h show ?thesis by blast
qed

section \<open>Statements that only talk to the libraries\<close>

lemma lib_onlyD:
  assumes "lib_only m"
  obtains r cs where "\<forall>w. m w = (r, w\<lparr>lib_calls := lib_calls w @ cs\<rparr>)"
  using assms unfolding lib_only_def by blast

lemma lib_only_pret [simp]: "lib_only (pret v)"
  unfolding lib_only_def pret_def by (intro exI[of _ "Inr v"] exI[of _ "[]"]) simp

lemma lib_only_extern [simp]: "lib_only (extern c r)"
  unfolding lib_only_def extern_def by (intro exI[of _ r] exI[of _ "[c]"]) simp

lemma lib_only_pbind:
  assumes "lib_only m" "\<And>v. lib_only (f v)"
  shows "lib_only (pbind m f)"
proof -
  from assms(1) obtain r cs where m: "\<forall>w. m w = (r, w\<lparr>lib_calls := lib_calls w @ cs\<rparr>)"
    by (rule lib_onlyD)
  show ?thesis
  proof (cases r)
    case (Inl e)
    with m have "\<forall>w. pbind m f w = (Inl e, w\<lparr>lib_calls := lib_calls w @ cs\<rparr>)"
      by (simp add: pbind_def)
    then show ?thesis unfolding lib_only_def by blast
  next
    case (Inr v)
    from assms(2)[of v] obtain r' cs'
      where f: "\<forall>w. f v w = (r', w\<lparr>lib_calls := lib_calls w @ cs'\<rparr>)"
      by (rule lib_onlyD)
    from m Inr f have "\<forall>w. pbind m f w = (r', w\<lparr>lib_calls := lib_calls w @ (cs @ cs')\<rparr>)"
      by (simp add: pbind_def)
    then show ?thesis unfolding lib_only_def by blast
  qed
qed

lemma lib_only_ops [simp]:
  "lib_only (QRCode L v ec bs bd fac)"
  "lib_only (add_data L qr d)"
  "lib_only (make L qr)"
  "lib_only (make_image L qr fill bg)"
  "lib_only (make_image_svg L qr fill bg)"
  "lib_only (convert L img md)"
  "lib_only (save L img path fmt)"
  "lib_only (open_wb L path)"
  "lib_only (save_stream L simg path)"
  "lib_only (resize L img sz)"
  "lib_only (PhotoImage L img)"
  by (simp_all add: QRCode_def add_data_def make_def make_image_def make_image_svg_def
      convert_def save_def open_wb_def save_stream_def resize_def PhotoImage_def)

lemma lib_only_PNGEncoder_save [simp]: "lib_only (PNGEncoder_save L qr path fill bg bs bd)"
  unfolding PNGEncoder_save_def by (intro lib_only_pbind) simp_all

lemma lib_only_SVGEncoder_save [simp]: "lib_only (SVGEncoder_save L qr path fill bg bs bd)"
  unfolding SVGEncoder_save_def by (intro lib_only_pbind) simp_all

lemma lib_only_encoder_save [simp]: "lib_only (encoder_save enc L qr path fill bg bs bd)"
  by (cases enc) simp_all

lemma lib_only_answer: "lib_only m \<Longrightarrow> fst (m w) = fst (m w')"
  by (erule lib_onlyD) simp

lemma lib_only_frame:
  assumes "lib_only m"
  shows "snd (m w) = w\<lparr>lib_calls := lib_calls (snd (m w))\<rparr>"
  using assms by (rule lib_onlyD) simp

section \<open>Which error correction the commands ask for\<close>

lemma first_new_callI:
  "lib_calls (snd (m w)) = lib_calls w @ c # rest \<Longrightarrow> first_new_call m w = Some c"
  by (simp add: first_new_call_def)

lemma generate_first_new_call:
  assumes "strip (data spec) \<noteq> []"
  shows "first_new_call (GenerateQRCommand_execute L spec) w =
           Some (Call_QRCode None (dict_get err_map (error_level spec) ERROR_CORRECT_M)
                   (box_size spec) (border spec) PilFactory)"
  using generate_first_call[OF assms, of L w] by (auto intro: first_new_callI)

lemma SaveQRCommand_execute_eq:
  assumes "current_qr w \<noteq> None" "asksaveasfilename_res L \<noteq> []"
  shows "SaveQRCommand_execute L w =
           ptry (save_body L (for_extension (last (split_dot (asksaveasfilename_res L))))
                   (asksaveasfilename_res L)) save_handler
             (w\<lparr>dialogs := dialogs w @ [asksaveasfilename ''Save QR code'']\<rparr>)"
  using assms by (cases "current_qr w") (simp_all add: SaveQRCommand_execute_def pbind_def show_dialog_eq Let_def)

lemma ptry_save_handler_journal:
  "lib_calls (snd (ptry m save_handler w)) = lib_calls (snd (m w))"
proof -
  obtain r w1 where mw: "m w = (r, w1)" by (cases "m w")
  show ?thesis
    by (cases r) (simp_all add: ptry_def mw save_handler_eq)
qed

lemma save_first_new_call:
  assumes "current_qr w \<noteq> None" "current_spec w = Some spec" "asksaveasfilename_res L \<noteq> []"
  shows "first_new_call (SaveQRCommand_execute L) w =
           Some (Call_QRCode None (dict_get err_map (error_level spec) ERROR_CORRECT_M)
                   (box_size spec) (border spec) PilFactory)"
proof -
  let ?w1 = "w\<lparr>dialogs := dialogs w @ [asksaveasfilename ''Save QR code'']\<rparr>"
  let ?enc = "for_extension (last (split_dot (asksaveasfilename_res L)))"
  have "current_spec ?w1 = Some spec" using assms(2) by simp
  from save_body_first_call[OF this, of L ?enc "asksaveasfilename_res L"]
  obtain rest where "lib_calls (snd (save_body L ?enc (asksaveasfilename_res L) ?w1)) =
      lib_calls w @ Call_QRCode None (dict_get err_map (error_level spec) ERROR_CORRECT_M)
                            (box_size spec) (border spec) PilFactory # rest"
    by auto
  then have "lib_calls (snd (SaveQRCommand_execute L w)) =
      lib_calls w @ Call_QRCode None (dict_get err_map (error_level spec) ERROR_CORRECT_M)
                            (box_size spec) (border spec) PilFactory # rest"
    by (simp add: SaveQRCommand_execute_eq[OF assms(1,3)] ptry_save_handler_journal)
  then show ?thesis by (rule first_new_callI)
qed

lemma err_map_letters:
  "dict_get err_map ''L'' d = ERROR_CORRECT_L"
  "dict_get err_map ''M'' d = ERROR_CORRECT_M"
  "dict_get err_map ''Q'' d = ERROR_CORRECT_Q"
  "dict_get err_map ''H'' d = ERROR_CORRECT_H"
  by (simp_all add: dict_get_def err_map_def)

lemma err_map_default:
  "lvl \<notin> {''L'', ''M'', ''Q'', ''H''} \<Longrightarrow> dict_get err_map lvl d = d"
  by (simp add: dict_get_def err_map_def)

lemma build_spec_error_level: "build_spec w = Inr spec \<Longrightarrow> error_level spec = ec_var w"
  by (auto simp: build_spec_def Let_def split: sum.splits)

text \<open>
  C4.  A spec built while the combo box variable holds one of the values it offers
  has one of the four letters L, M, Q, H as its error level, and the Generate command
  opens its work by constructing the symbol with the library constant of that
  letter: L gives \<open>ERROR_CORRECT_L\<close>, M gives \<open>ERROR_CORRECT_M\<close>, Q gives
  \<open>ERROR_CORRECT_Q\<close> and H gives \<open>ERROR_CORRECT_H\<close>.
\<close>

theorem generate_maps_error_level:
  assumes "ec_var w \<in> set ec_values" "build_spec w = Inr spec" "strip (data spec) \<noteq> []"
  shows "error_level spec \<in> {''L'', ''M'', ''Q'', ''H''} \<and>
         (error_level spec = ''L'' \<longrightarrow>
            first_new_call (GenerateQRCommand_execute L spec) w =
              Some (Call_QRCode None ERROR_CORRECT_L (box_size spec) (border spec) PilFactory)) \<and>
         (error_level spec = ''M'' \<longrightarrow>
            first_new_call (GenerateQRCommand_execute L spec) w =
              Some (Call_QRCode None ERROR_CORRECT_M (box_size spec) (border spec) PilFactory)) \<and>
         (error_level spec = ''Q'' \<longrightarrow>
            first_new_call (GenerateQRCommand_execute L spec) w =
              Some (Call_QRCode None ERROR_CORRECT_Q (box_size spec) (border spec) PilFactory)) \<and>
         (error_level spec = ''H'' \<longrightarrow>
            first_new_call (GenerateQRCommand_execute L spec) w =
              Some (Call_QRCode None ERROR_CORRECT_H (box_size spec) (border spec) PilFactory))"
proof -
  from assms(1,2) have "error_level spec \<in> {''L'', ''M'', ''Q'', ''H''}"
    by (simp add: build_spec_error_level ec_values_def)
  moreover note generate_first_new_call[OF assms(3), of L w]
  ultimately show ?thesis by (auto simp: err_map_letters)
qed

text \<open>
  C8.  An error level that is none of L, M, Q, H is not rejected: the Generate
  command (on a text that is not blank) and the Save command (with a symbol to save
  and a chosen path) both open their work by constructing the symbol with
  \<open>ERROR_CORRECT_M\<close>.
\<close>

theorem unknown_error_level_falls_back_to_M:
  assumes "error_level spec \<notin> {''L'', ''M'', ''Q'', ''H''}"
  shows "(strip (data spec) \<noteq> [] \<longrightarrow>
            first_new_call (GenerateQRCommand_execute L spec) w =
              Some (Call_QRCode None ERROR_CORRECT_M (box_size spec) (border spec) PilFactory)) \<and>
         (current_qr w \<noteq> None \<longrightarrow> current_spec w = Some spec \<longrightarrow> asksaveasfilename_res L \<noteq> [] \<longrightarrow>
            first_new_call (SaveQRCommand_execute L) w =
              Some (Call_QRCode None ERROR_CORRECT_M (box_size spec) (border spec) PilFactory))"
  using generate_first_new_call[of spec L w] save_first_new_call[of w spec L]
    err_map_default[OF assms, of ERROR_CORRECT_M]
  by simp

theorem generate_maps_error_level_witness:
  "strip ''hello'' \<noteq> [] \<and>
   ec_var (init_QRApp\<lparr>input_var := ''hello'', ec_var := ''L''\<rparr>) \<in> set ec_values \<and>
   build_spec (init_QRApp\<lparr>input_var := ''hello'', ec_var := ''L''\<rparr>) =
     Inr \<lparr>data = ''hello'', error_level = ''L'', box_size = 10, border = 4,
          fill_color = ''black'', background = WhiteBackground\<rparr> \<and>
   first_new_call (GenerateQRCommand_execute sample_lib
       \<lparr>data = ''hello'', error_level = ''L'', box_size = 10, border = 4,
          fill_color = ''black'', background = WhiteBackground\<rparr>)
     (init_QRApp\<lparr>input_var := ''hello'', ec_var := ''L''\<rparr>) =
     Some (Call_QRCode None ERROR_CORRECT_L 10 4 PilFactory) \<and>
   ec_var (init_QRApp\<lparr>input_var := ''hello'', ec_var := ''M''\<rparr>) \<in> set ec_values \<and>
   build_spec (init_QRApp\<lparr>input_var := ''hello'', ec_var := ''M''\<rparr>) =
     Inr \<lparr>data = ''hello'', error_level = ''M'', box_size = 10, border = 4,
          fill_color = ''black'', background = WhiteBackground\<rparr> \<and>
   first_new_call (GenerateQRCommand_execute sample_lib
       \<lparr>data = ''hello'', error_level = ''M'', box_size = 10, border = 4,
          fill_color = ''black'', background = WhiteBackground\<rparr>)
     (init_QRApp\<lparr>input_var := ''hello'', ec_var := ''M''\<rparr>) =
     Some (Call_QRCode None ERROR_CORRECT_M 10 4 PilFactory) \<and>
   ec_var (init_QRApp\<lparr>input_var := ''hello'', ec_var := ''Q''\<rparr>) \<in> set ec_values \<and>
   build_spec (init_QRApp\<lparr>input_var := ''hello'', ec_var := ''Q''\<rparr>) =
     Inr \<lparr>data = ''hello'', error_level = ''Q'', box_size = 10, border = 4,
          fill_color = ''black'', background = WhiteBackground\<rparr> \<and>
   first_new_call (GenerateQRCommand_execute sample_lib
       \<lparr>data = ''hello'', error_level = ''Q'', box_size = 10, border = 4,
          fill_color = ''black'', background = WhiteBackground\<rparr>)
     (init_QRApp\<lparr>input_var := ''hello'', ec_var := ''Q''\<rparr>) =
     Some (Call_QRCode None ERROR_CORRECT_Q 10 4 PilFactory) \<and>
   ec_var (init_QRApp\<lparr>input_var := ''hello'', ec_var := ''H''\<rparr>) \<in> set ec_values \<and>
   build_spec (init_QRApp\<lparr>input_var := ''hello'', ec_var := ''H''\<rparr>) =
     Inr \<lparr>data = ''hello'', error_level = ''H'', box_size = 10, border = 4,
          fill_color = ''black'', background = WhiteBackground\<rparr> \<and>
   first_new_call (GenerateQRCommand_execute sample_lib
       \<lparr>data = ''hello'', error_level = ''H'', box_size = 10, border = 4,
          fill_color = ''black'', background = WhiteBackground\<rparr>)
     (init_QRApp\<lparr>input_var := ''hello'', ec_var := ''H''\<rparr>) =
     Some (Call_QRCode None ERROR_CORRECT_H 10 4 PilFactory)"
proof -
  have aL: "ec_var (init_QRApp\<lparr>input_var := ''hello'', ec_var := ''L''\<rparr>) \<in> set ec_values" by (simp add: ec_values_def)
  have bL: "build_spec (init_QRApp\<lparr>input_var := ''hello'', ec_var := ''L''\<rparr>) = Inr \<lparr>data = ''hello'', error_level = ''L'', box_size = 10, border = 4,
          fill_color = ''black'', background = WhiteBackground\<rparr>"
    by (simp add: build_spec_def init_QRApp_def default_box_size_def default_border_def)
  have cL: "strip (data \<lparr>data = ''hello'', error_level = ''L'', box_size = 10, border = 4,
          fill_color = ''black'', background = WhiteBackground\<rparr>) \<noteq> []" by (simp add: strip_hello)
  have dL: "error_level \<lparr>data = ''hello'', error_level = ''L'', box_size = 10, border = 4,
          fill_color = ''black'', background = WhiteBackground\<rparr> = ''L''" by simp
  from generate_maps_error_level[OF aL bL cL, of sample_lib] dL
  have rL: "first_new_call (GenerateQRCommand_execute sample_lib \<lparr>data = ''hello'', error_level = ''L'', box_size = 10, border = 4,
          fill_color = ''black'', background = WhiteBackground\<rparr>) (init_QRApp\<lparr>input_var := ''hello'', ec_var := ''L''\<rparr>) =
          Some (Call_QRCode None ERROR_CORRECT_L (box_size \<lparr>data = ''hello'', error_level = ''L'', box_size = 10, border = 4,
          fill_color = ''black'', background = WhiteBackground\<rparr>) (border \<lparr>data = ''hello'', error_level = ''L'', box_size = 10, border = 4,
          fill_color = ''black'', background = WhiteBackground\<rparr>) PilFactory)"
    by blast
  have aM: "ec_var (init_QRApp\<lparr>input_var := ''hello'', ec_var := ''M''\<rparr>) \<in> set ec_values" by (simp add: ec_values_def)
  have bM: "build_spec (init_QRApp\<lparr>input_var := ''hello'', ec_var := ''M''\<rparr>) = Inr \<lparr>data = ''hello'', error_level = ''M'', box_size = 10, border = 4,
          fill_color = ''black'', background = WhiteBackground\<rparr>"
    by (simp add: build_spec_def init_QRApp_def default_box_size_def default_border_def)
  have cM: "strip (data \<lparr>data = ''hello'', error_level = ''M'', box_size = 10, border = 4,
          fill_color = ''black'', background = WhiteBackground\<rparr>) \<noteq> []" by (simp add: strip_hello)
  have dM: "error_level \<lparr>data = ''hello'', error_level = ''M'', box_size = 10, border = 4,
          fill_color = ''black'', background = WhiteBackground\<rparr> = ''M''" by simp
  from generate_maps_error_level[OF aM bM cM, of sample_lib] dM
  have rM: "first_new_call (GenerateQRCommand_execute sample_lib \<lparr>data = ''hello'', error_level = ''M'', box_size = 10, border = 4,
          fill_color = ''black'', background = WhiteBackground\<rparr>) (init_QRApp\<lparr>input_var := ''hello'', ec_var := ''M''\<rparr>) =
          Some (Call_QRCode None ERROR_CORRECT_M (box_size \<lparr>data = ''hello'', error_level = ''M'', box_size = 10, border = 4,
          fill_color = ''black'', background = WhiteBackground\<rparr>) (border \<lparr>data = ''hello'', error_level = ''M'', box_size = 10, border = 4,
          fill_color = ''black'', background = WhiteBackground\<rparr>) PilFactory)"
    by blast
  have aQ: "ec_var (init_QRApp\<lparr>input_var := ''hello'', ec_var := ''Q''\<rparr>) \<in> set ec_values" by (simp add: ec_values_def)
  have bQ: "build_spec (init_QRApp\<lparr>input_var := ''hello'', ec_var := ''Q''\<rparr>) = Inr \<lparr>data = ''hello'', error_level = ''Q'', box_size = 10, border = 4,
          fill_color = ''black'', background = WhiteBackground\<rparr>"
    by (simp add: build_spec_def init_QRApp_def default_box_size_def default_border_def)
  have cQ: "strip (data \<lparr>data = ''hello'', error_level = ''Q'', box_size = 10, border = 4,
          fill_color = ''black'', background = WhiteBackground\<rparr>) \<noteq> []" by (simp add: strip_hello)
  have dQ: "error_level \<lparr>data = ''hello'', error_level = ''Q'', box_size = 10, border = 4,
          fill_color = ''black'', background = WhiteBackground\<rparr> = ''Q''" by simp
  from generate_maps_error_level[OF aQ bQ cQ, of sample_lib] dQ
  have rQ: "first_new_call (GenerateQRCommand_execute sample_lib \<lparr>data = ''hello'', error_level = ''Q'', box_size = 10, border = 4,
          fill_color = ''black'', background = WhiteBackground\<rparr>) (init_QRApp\<lparr>input_var := ''hello'', ec_var := ''Q''\<rparr>) =
          Some (Call_QRCode None ERROR_CORRECT_Q (box_size \<lparr>data = ''hello'', error_level = ''Q'', box_size = 10, border = 4,
          fill_color = ''black'', background = WhiteBackground\<rparr>) (border \<lparr>data = ''hello'', error_level = ''Q'', box_size = 10, border = 4,
          fill_color = ''black'', background = WhiteBackground\<rparr>) PilFactory)"
    by blast
  have aH: "ec_var (init_QRApp\<lparr>input_var := ''hello'', ec_var := ''H''\<rparr>) \<in> set ec_values" by (simp add: ec_values_def)
  have bH: "build_spec (init_QRApp\<lparr>input_var := ''hello'', ec_var := ''H''\<rparr>) = Inr \<lparr>data = ''hello'', error_level = ''H'', box_size = 10, border = 4,
          fill_color = ''black'', background = WhiteBackground\<rparr>"
    by (simp add: build_spec_def init_QRApp_def default_box_size_def default_border_def)
  have cH: "strip (data \<lparr>data = ''hello'', error_level = ''H'', box_size = 10, border = 4,
          fill_color = ''black'', background = WhiteBackground\<rparr>) \<noteq> []" by (simp add: strip_hello)
  have dH: "error_level \<lparr>data = ''hello'', error_level = ''H'', box_size = 10, border = 4,
          fill_color = ''black'', background = WhiteBackground\<rparr> = ''H''" by simp
  from generate_maps_error_level[OF aH bH cH, of sample_lib] dH
  have rH: "first_new_call (GenerateQRCommand_execute sample_lib \<lparr>data = ''hello'', error_level = ''H'', box_size = 10, border = 4,
          fill_color = ''black'', background = WhiteBackground\<rparr>) (init_QRApp\<lparr>input_var := ''hello'', ec_var := ''H''\<rparr>) =
          Some (Call_QRCode None ERROR_CORRECT_H (box_size \<lparr>data = ''hello'', error_level = ''H'', box_size = 10, border = 4,
          fill_color = ''black'', background = WhiteBackground\<rparr>) (border \<lparr>data = ''hello'', error_level = ''H'', box_size = 10, border = 4,
          fill_color = ''black'', background = WhiteBackground\<rparr>) PilFactory)"
    by blast
  from aL bL rL aM bM rM aQ bQ rQ aH bH rH show ?thesis by (simp add: strip_hello)
qed

theorem unknown_error_level_falls_back_to_M_witness:
  "error_level \<lparr>data = ''hello'', error_level = ''m'', box_size = 10, border = 4,
          fill_color = ''black'', background = WhiteBackground\<rparr> \<notin> {''L'', ''M'', ''Q'', ''H''} \<and>
   strip ''hello'' \<noteq> [] \<and>
   first_new_call (GenerateQRCommand_execute sample_lib
       \<lparr>data = ''hello'', error_level = ''m'', box_size = 10, border = 4,
        fill_color = ''black'', background = WhiteBackground\<rparr>) init_QRApp =
     Some (Call_QRCode None ERROR_CORRECT_M 10 4 PilFactory) \<and>
   first_new_call (SaveQRCommand_execute sample_lib)
     (init_QRApp\<lparr>current_qr := Some sample_qr,
        current_spec := Some \<lparr>data = ''hello'', error_level = ''m'', box_size = 10, border = 4,
          fill_color = ''black'', background = WhiteBackground\<rparr>\<rparr>) =
     Some (Call_QRCode None ERROR_CORRECT_M 10 4 PilFactory)"
proof -
  let ?spec = "\<lparr>data = ''hello'', error_level = ''m'', box_size = 10, border = 4,
          fill_color = ''black'', background = WhiteBackground\<rparr>"
  let ?w = "init_QRApp\<lparr>current_qr := Some sample_qr, current_spec := Some ?spec\<rparr>"
  have a: "error_level ?spec \<notin> {''L'', ''M'', ''Q'', ''H''}" by simp
  have c: "strip (data ?spec) \<noteq> []" by code_simp
  have p: "asksaveasfilename_res sample_lib \<noteq> []" by (simp add: sample_lib_def)
  have q: "current_qr ?w \<noteq> None" "current_spec ?w = Some ?spec" by simp_all
  from unknown_error_level_falls_back_to_M[OF a, of sample_lib init_QRApp] c
  have g: "first_new_call (GenerateQRCommand_execute sample_lib ?spec) init_QRApp =
      Some (Call_QRCode None ERROR_CORRECT_M (box_size ?spec) (border ?spec) PilFactory)"
    by blast
  from unknown_error_level_falls_back_to_M[OF a, of sample_lib ?w] p q
  have s: "first_new_call (SaveQRCommand_execute sample_lib) ?w =
      Some (Call_QRCode None ERROR_CORRECT_M (box_size ?spec) (border ?spec) PilFactory)"
    by blast
  from a c g s show ?thesis by simp
qed

section \<open>A failing save\<close>

text \<open>
  C2.  When the save routine of the chosen encoder raises \<open>e\<close>, the Save command
  returns normally, the console gets the one line \<open>ERROR saving: e\<close> and nothing
  else (so no line about a saved file), the only dialog after the file dialog is the
  error box, and \<open>current_image\<close>, \<open>current_qr\<close> and \<open>current_spec\<close> are as
  before.  The application is the running one, whose bus has the console writer as
  its one subscriber; whether the routine raises depends on the answers of the
  library only (lemma \<open>lib_only_answer\<close>).
\<close>

theorem save_failure_is_reported:
  assumes "current_qr w \<noteq> None" "current_spec w = Some spec" "subs w = [console_write]"
    and "asksaveasfilename_res L = path" "path \<noteq> []"
    and "QRCode_res L None (dict_get err_map (error_level spec) ERROR_CORRECT_M)
           (box_size spec) (border spec) PilFactory = Inr q0"
    and "add_data_res L q0 (Text (data spec)) = Inr q1"
    and "make_res L q1 = Inr q2"
    and "fst (encoder_save (for_extension (last (split_dot path))) L q2 path (fill_color spec)
              (back_color (background spec)) (box_size spec) (border spec) w) = Inl e"
  shows "fst (SaveQRCommand_execute L w) = Inr () \<and>
         console_text (snd (SaveQRCommand_execute L w)) =
           console_text w @ ''ERROR saving: '' @ str_exn e @ [CHR 0x0A] \<and>
         dialogs (snd (SaveQRCommand_execute L w)) =
           dialogs w @ [asksaveasfilename ''Save QR code'',
                        showerror ''Save failed'' (''Could not save file:'' @ [CHR 0x0A] @ str_exn e)] \<and>
         current_image (snd (SaveQRCommand_execute L w)) = current_image w \<and>
         current_qr (snd (SaveQRCommand_execute L w)) = current_qr w \<and>
         current_spec (snd (SaveQRCommand_execute L w)) = current_spec w"
proof -
  let ?enc = "for_extension (last (split_dot path))"
  let ?save = "encoder_save ?enc L q2 path (fill_color spec) (back_color (background spec))
                 (box_size spec) (border spec)"
  obtain r cs where sv: "\<forall>w. ?save w = (r, w\<lparr>lib_calls := lib_calls w @ cs\<rparr>)"
    using lib_only_encoder_save by (rule lib_onlyD)
  with assms(9) have r: "r = Inl e" by simp
  let ?w1 = "w\<lparr>dialogs := dialogs w @ [asksaveasfilename ''Save QR code'']\<rparr>"
  have body: "save_body L ?enc path ?w1 =
      (Inl e, ?w1\<lparr>lib_calls := lib_calls w @
          [Call_QRCode None (dict_get err_map (error_level spec) ERROR_CORRECT_M)
             (box_size spec) (border spec) PilFactory,
           Call_add_data q0 (Text (data spec)), Call_make q1] @ cs\<rparr>)"
    using assms(2,6,7,8) sv r
    by (simp add: save_body_def pbind_def reads_def QRCode_def add_data_def make_def extern_def)
  have "SaveQRCommand_execute L w = ptry (save_body L ?enc path) save_handler ?w1"
    using SaveQRCommand_execute_eq[of w L] assms(1,4,5) by simp
  then show ?thesis
    using assms(3) by (simp add: ptry_def body save_handler_eq)
qed

section \<open>Rounding to binary64\<close>

lemma two_powi_pos [simp]: "0 < (2::rat) powi k"
  by (simp add: zero_less_power_int)

lemma two_powi_add: "(2::rat) powi (a + b) = 2 powi a * 2 powi b"
  by (simp add: power_int_add)

lemma two_powi_diff: "(2::rat) powi (a - b) = 2 powi a / 2 powi b"
  by (simp add: power_int_diff)

lemma two_powi_less_iff: "(2::rat) powi a < 2 powi b \<longleftrightarrow> a < b"
proof
  assume "(2::rat) powi a < 2 powi b"
  show "a < b"
  proof (rule ccontr)
    assume "\<not> a < b"
    then have "b \<le> a" by simp
    then have "(2::rat) powi b \<le> 2 powi a" by (intro power_int_increasing) simp_all
    with \<open>(2::rat) powi a < 2 powi b\<close> show False by simp
  qed
next
  assume "a < b"
  then show "(2::rat) powi a < 2 powi b" by (intro power_int_strict_increasing) simp_all
qed

lemma two_powi_le_iff: "(2::rat) powi a \<le> 2 powi b \<longleftrightarrow> a \<le> b"
  using two_powi_less_iff[of b a] by (auto simp: not_less[symmetric])

lemma bitlen_powi_bounds:
  assumes "0 < a"
  shows "(2::rat) powi (bitlen a - 1) \<le> of_int a" and "of_int a < (2::rat) powi bitlen a"
proof -
  from assms have b1: "1 \<le> bitlen a"
    using bitlen_eq_zero_iff[of a] bitlen_nonneg[of a] by linarith
  from bitlen_bounds[OF assms]
  have lo: "2 ^ nat (bitlen a - 1) \<le> a" and hi: "a < 2 ^ nat (bitlen a)" by simp_all
  have "(2::rat) powi (bitlen a - 1) = 2 ^ nat (bitlen a - 1)"
    using b1 by (simp add: power_int_def)
  also have "\<dots> = of_int (2 ^ nat (bitlen a - 1))" by simp
  also have "\<dots> \<le> of_int a" using lo by (simp only: of_int_le_iff)
  finally show "(2::rat) powi (bitlen a - 1) \<le> of_int a" .
  have "(of_int a :: rat) < of_int (2 ^ nat (bitlen a))" using hi by (simp only: of_int_less_iff)
  also have "\<dots> = 2 ^ nat (bitlen a)" by simp
  also have "\<dots> = 2 powi bitlen a" using b1 by (simp add: power_int_def)
  finally show "of_int a < (2::rat) powi bitlen a" .
qed

lemma ilog2_bounds:
  assumes "0 < x"
  shows "2 powi (ilog2 x) \<le> x" and "x < 2 powi (ilog2 x + 1)"
proof -
  obtain a b where q: "quotient_of x = (a, b)" by (cases "quotient_of x")
  then have b: "0 < b" by (rule quotient_of_denom_pos)
  from q have x: "x = of_int a / of_int b" by (rule quotient_of_div)
  with assms b have a: "0 < a" by (simp add: zero_less_divide_iff)
  let ?k = "bitlen a - bitlen b"
  have lo: "2 powi (?k - 1) \<le> x"
  proof -
    have "2 powi (?k - 1) * of_int b \<le> (2::rat) powi (?k - 1) * 2 powi bitlen b"
      using bitlen_powi_bounds(2)[OF b] by (intro mult_left_mono) simp_all
    also have "\<dots> = 2 powi (bitlen a - 1)"
      by (simp flip: two_powi_add)
    also have "\<dots> \<le> of_int a" by (rule bitlen_powi_bounds(1)[OF a])
    finally show ?thesis using b by (simp add: x pos_le_divide_eq)
  qed
  have hi: "x < 2 powi (?k + 1)"
  proof -
    have "of_int a < (2::rat) powi bitlen a" by (rule bitlen_powi_bounds(2)[OF a])
    also have "\<dots> = 2 powi (?k + 1) * 2 powi (bitlen b - 1)"
      by (simp flip: two_powi_add)
    also have "\<dots> \<le> 2 powi (?k + 1) * of_int b"
      using bitlen_powi_bounds(1)[OF b] by (intro mult_left_mono) simp_all
    finally show ?thesis using b by (simp add: x pos_divide_less_eq)
  qed
  have il: "ilog2 x = (if 2 powi ?k \<le> x then ?k else ?k - 1)"
    by (simp add: ilog2_def q Let_def)
  show "2 powi (ilog2 x) \<le> x" using lo by (simp add: il)
  show "x < 2 powi (ilog2 x + 1)" using hi by (auto simp: il)
qed

lemma ilog2_unique:
  assumes "2 powi k \<le> x" "x < 2 powi (k + 1)"
  shows "ilog2 x = k"
proof -
  have "0 < (2::rat) powi k" by simp
  with assms(1) have pos: "0 < x" by linarith
  from ilog2_bounds[OF pos] assms
  have "(2::rat) powi (ilog2 x) < 2 powi (k + 1)" "(2::rat) powi k < 2 powi (ilog2 x + 1)"
    by linarith+
  then show ?thesis by (simp add: two_powi_less_iff)
qed

lemma ilog2_mono:
  assumes "0 < x" "x \<le> y"
  shows "ilog2 x \<le> ilog2 y"
proof -
  from assms have "0 < y" by simp
  from ilog2_bounds(1)[OF assms(1)] ilog2_bounds(2)[OF \<open>0 < y\<close>] assms(2)
  have "(2::rat) powi (ilog2 x) < 2 powi (ilog2 y + 1)" by linarith
  then show ?thesis by (simp add: two_powi_less_iff)
qed

lemma round_half_even_of_int [simp]: "round_half_even (of_int n) = n"
  by (simp add: round_half_even_def)


lemma round_half_even_range:
  "\<lfloor>m\<rfloor> \<le> round_half_even m" "round_half_even m \<le> \<lfloor>m\<rfloor> + 1"
  by (auto simp: round_half_even_def Let_def)

lemma round_half_even_mono:
  assumes "m \<le> m'"
  shows "round_half_even m \<le> round_half_even m'"
proof (cases "\<lfloor>m\<rfloor> = \<lfloor>m'\<rfloor>")
  case True
  with assms have "m - of_int \<lfloor>m\<rfloor> \<le> m' - of_int \<lfloor>m'\<rfloor>" by simp
  then show ?thesis
    unfolding round_half_even_def Let_def True[symmetric] by (auto simp: True)
next
  case False
  with assms have "\<lfloor>m\<rfloor> < \<lfloor>m'\<rfloor>" using floor_mono[OF assms] by linarith
  with round_half_even_range(2)[of m] round_half_even_range(1)[of m'] show ?thesis
    by linarith
qed

lemma scaled_range:
  assumes "0 < x"
  shows "2 ^ 52 \<le> x / 2 powi (ilog2 x - 52)" "x / 2 powi (ilog2 x - 52) < 2 ^ 53"
proof -
  have e: "(2::rat) powi (ilog2 x - 52) = 2 powi ilog2 x / 2 ^ 52"
    by (simp add: two_powi_diff)
  have e': "(2::rat) powi (ilog2 x + 1) = 2 powi ilog2 x * 2"
    by (simp add: two_powi_add)
  have p: "0 < (2::rat) powi ilog2 x" by simp
  from ilog2_bounds(1)[OF assms] p show "2 ^ 52 \<le> x / 2 powi (ilog2 x - 52)"
    by (simp add: e pos_le_divide_eq)
  from ilog2_bounds(2)[OF assms] p show "x / 2 powi (ilog2 x - 52) < 2 ^ 53"
    by (simp add: e e' pos_divide_less_eq)
qed

lemma fl_pos_bounds:
  assumes "0 < x"
  shows "2 powi (ilog2 x) \<le> fl_pos x" "fl_pos x \<le> 2 powi (ilog2 x + 1)"
proof -
  let ?e = "ilog2 x - 52"
  let ?y = "x / 2 powi ?e"
  have "round_half_even (of_int (2 ^ 52)) \<le> round_half_even ?y"
    using scaled_range(1)[OF assms] by (intro round_half_even_mono) simp
  then have lo: "(2::int) ^ 52 \<le> round_half_even ?y"
    by (simp only: round_half_even_of_int)
  have "round_half_even ?y \<le> round_half_even (of_int (2 ^ 53))"
    using scaled_range(2)[OF assms] by (intro round_half_even_mono) simp
  then have hi: "round_half_even ?y \<le> (2::int) ^ 53"
    by (simp only: round_half_even_of_int)
  have "(2::rat) powi ilog2 x = of_int (2 ^ 52) * 2 powi ?e"
    by (simp add: two_powi_diff)
  also have "\<dots> \<le> of_int (round_half_even ?y) * 2 powi ?e"
    using lo by (intro mult_right_mono) (simp_all only: of_int_le_iff, simp)
  finally show "2 powi (ilog2 x) \<le> fl_pos x" by (simp add: fl_pos_def Let_def)
  have "of_int (round_half_even ?y) * 2 powi ?e \<le> of_int (2 ^ 53) * (2::rat) powi ?e"
    using hi by (intro mult_right_mono) (simp_all only: of_int_le_iff, simp)
  also have "\<dots> = 2 powi (ilog2 x + 1)"
    by (simp add: two_powi_diff two_powi_add)
  finally show "fl_pos x \<le> 2 powi (ilog2 x + 1)" by (simp add: fl_pos_def Let_def)
qed

lemma fl_pos_positive: "0 < x \<Longrightarrow> 0 < fl_pos x"
  using fl_pos_bounds(1)[of x] two_powi_pos[of "ilog2 x"] by linarith

lemma fl_pos_mono:
  assumes "0 < x" "x \<le> y"
  shows "fl_pos x \<le> fl_pos y"
proof (cases "ilog2 x = ilog2 y")
  case True
  have "x / 2 powi (ilog2 y - 52) \<le> y / 2 powi (ilog2 y - 52)"
    using assms(2) by (simp add: divide_right_mono)
  then have "round_half_even (x / 2 powi (ilog2 y - 52)) \<le> round_half_even (y / 2 powi (ilog2 y - 52))"
    by (rule round_half_even_mono)
  then have "(of_int (round_half_even (x / 2 powi (ilog2 y - 52))) :: rat)
               \<le> of_int (round_half_even (y / 2 powi (ilog2 y - 52)))"
    by (simp only: of_int_le_iff)
  then show ?thesis
    by (simp add: fl_pos_def Let_def True mult_right_mono)
next
  case False
  from assms have y: "0 < y" by simp
  from False ilog2_mono[OF assms] have "ilog2 x + 1 \<le> ilog2 y" by simp
  then have "(2::rat) powi (ilog2 x + 1) \<le> 2 powi ilog2 y" by (simp add: two_powi_le_iff)
  with fl_pos_bounds(2)[OF assms(1)] fl_pos_bounds(1)[OF y] show ?thesis by linarith
qed

lemma fl_nonneg: "0 \<le> x \<Longrightarrow> 0 \<le> fl x"
  using fl_pos_positive[of x] by (auto simp: fl_def)

lemma fl_mono:
  assumes "0 \<le> x" "x \<le> y"
  shows "fl x \<le> fl y"
proof (cases "x = 0")
  case True
  with assms fl_nonneg[of y] show ?thesis by (simp add: fl_def)
next
  case False
  with assms have "0 < x" "0 < y" by simp_all
  with fl_pos_mono[OF \<open>0 < x\<close> assms(2)] show ?thesis by (simp add: fl_def)
qed

text \<open>
  A number \<open>a * 2^j\<close> with \<open>0 \<le> a < 2^53\<close> is representable and is not changed by
  rounding.
\<close>

lemma fl_exact:
  assumes "0 \<le> a" "a < 2 ^ 53"
  shows "fl (of_int a * 2 powi j) = of_int a * 2 powi j"
proof (cases "a = 0")
  case True
  then show ?thesis by (simp add: fl_def)
next
  case False
  with assms have a: "0 < a" by simp
  let ?x = "of_int a * (2::rat) powi j"
  have x: "0 < ?x" using a by simp
  have "?x < of_int (2 ^ 53) * 2 powi j"
    using assms(2) by (intro mult_strict_right_mono) (simp_all only: of_int_less_iff, simp)
  also have "\<dots> = 2 powi (53 + j)" by (simp add: two_powi_add)
  finally have "(2::rat) powi ilog2 ?x < 2 powi (53 + j)"
    using ilog2_bounds(1)[OF x] by linarith
  then have e: "ilog2 ?x - 52 \<le> j" by (simp add: two_powi_less_iff)
  define n where "n = nat (j - (ilog2 ?x - 52))"
  have jn: "j - (ilog2 ?x - 52) = int n" using e by (simp add: n_def)
  have pw: "(2::rat) powi (j - (ilog2 ?x - 52)) = 2 ^ n"
    by (simp only: jn power_int_of_nat)
  have "?x / 2 powi (ilog2 ?x - 52) = of_int a * 2 powi (j - (ilog2 ?x - 52))"
    by (simp add: two_powi_diff)
  also have "\<dots> = of_int (a * 2 ^ n)" by (simp add: pw)
  finally have y: "?x / 2 powi (ilog2 ?x - 52) = of_int (a * 2 ^ n)" .
  have "fl_pos ?x = of_int (a * 2 ^ n) * 2 powi (ilog2 ?x - 52)"
    unfolding fl_pos_def Let_def y round_half_even_of_int ..
  also have "\<dots> = of_int a * (2 powi (j - (ilog2 ?x - 52)) * 2 powi (ilog2 ?x - 52))"
    by (simp add: pw)
  also have "2 powi (j - (ilog2 ?x - 52)) * 2 powi (ilog2 ?x - 52) = (2::rat) powi j"
    by (simp add: two_powi_add[symmetric])
  finally show ?thesis using x by (simp add: fl_def)
qed

lemma fl_of_nat: "n < 2 ^ 53 \<Longrightarrow> fl (of_nat n) = of_nat n"
proof -
  assume "n < 2 ^ 53"
  then have "int n < 2 ^ 53" by (metis of_nat_less_iff of_nat_numeral of_nat_power)
  from fl_exact[of "int n" 0, OF _ this] show ?thesis by simp
qed

lemma fl_one [simp]: "fl 1 = 1"
  using fl_of_nat[of 1] by simp



section \<open>The size of the preview\<close>










section \<open>Concrete runs with the sample library\<close>




lemma for_extension_ext_png: "for_extension (last (split_dot ''qr.png'')) = PNGEncoder"
  by code_simp

theorem save_failure_is_reported_witness:
  "current_qr generated_app \<noteq> None \<and>
   current_spec generated_app =
     Some \<lparr>data = ''hello'', error_level = ''M'', box_size = 10, border = 4,
           fill_color = ''black'', background = WhiteBackground\<rparr> \<and>
   subs generated_app = [console_write] \<and>
   asksaveasfilename_res failing_lib = ''qr.png'' \<and>
   fst (encoder_save (for_extension (last (split_dot ''qr.png''))) failing_lib sample_qr ''qr.png''
          ''black'' ''white'' 10 4 generated_app) =
     Inl (Exn ''PermissionError'' ''[Errno 13] Permission denied'') \<and>
   fst (SaveQRCommand_execute failing_lib generated_app) = Inr () \<and>
   console_text (snd (SaveQRCommand_execute failing_lib generated_app)) =
     console_text generated_app @ ''ERROR saving: [Errno 13] Permission denied'' @ [CHR 0x0A] \<and>
   dialogs (snd (SaveQRCommand_execute failing_lib generated_app)) =
     dialogs generated_app @
       [asksaveasfilename ''Save QR code'',
        showerror ''Save failed'' (''Could not save file:'' @ [CHR 0x0A] @ ''[Errno 13] Permission denied'')] \<and>
   current_image (snd (SaveQRCommand_execute failing_lib generated_app)) = current_image generated_app \<and>
   current_qr (snd (SaveQRCommand_execute failing_lib generated_app)) = current_qr generated_app \<and>
   current_spec (snd (SaveQRCommand_execute failing_lib generated_app)) = current_spec generated_app"
proof -
  let ?spec = "\<lparr>data = ''hello'', error_level = ''M'', box_size = 10, border = 4,
           fill_color = ''black'', background = WhiteBackground\<rparr>"
  let ?q0 = "\<lparr>version = None, error_correction = ERROR_CORRECT_M, qr_box_size = 10, qr_border = 4,
             image_factory = PilFactory, data_list = []\<rparr>"
  let ?q1 = "\<lparr>version = None, error_correction = ERROR_CORRECT_M, qr_box_size = 10, qr_border = 4,
             image_factory = PilFactory, data_list = [Text ''hello'']\<rparr>"
  let ?e = "Exn ''PermissionError'' ''[Errno 13] Permission denied''"
  have h1: "current_qr generated_app \<noteq> None" by (simp add: generated_app_def)
  have h2: "current_spec generated_app = Some ?spec" by (simp add: generated_app_def)
  have h3: "subs generated_app = [console_write]" by (simp add: generated_app_def init_QRApp_def)
  have h4: "asksaveasfilename_res failing_lib = ''qr.png''"
    by (simp add: failing_lib_def sample_lib_def)
  have h5: "''qr.png'' \<noteq> []" by simp
  have h6: "QRCode_res failing_lib None (dict_get err_map (error_level ?spec) ERROR_CORRECT_M)
              (box_size ?spec) (border ?spec) PilFactory = Inr ?q0"
    by (simp add: failing_lib_def sample_lib_def err_map_letters)
  have h7: "add_data_res failing_lib ?q0 (Text (data ?spec)) = Inr ?q1"
    by (simp add: failing_lib_def sample_lib_def)
  have h8: "make_res failing_lib ?q1 = Inr sample_qr"
    by (simp add: failing_lib_def sample_lib_def sample_qr_def)
  have h9: "fst (encoder_save (for_extension (last (split_dot ''qr.png''))) failing_lib sample_qr
              ''qr.png'' (fill_color ?spec) (back_color (background ?spec)) (box_size ?spec)
              (border ?spec) generated_app) = Inl ?e"
    unfolding for_extension_ext_png
    by (simp add: PNGEncoder_save_def pbind_def pret_def make_image_def
        save_def extern_def failing_lib_def sample_lib_def)
  from save_failure_is_reported[OF h1 h2 h3 h4 h5 h6 h7 h8 h9] h1 h2 h3 h4 h9
  show ?thesis by simp
qed

section \<open>Relating the object before and after a statement\<close>

















lemma build_spec_frame [simp]:
  "build_spec (w\<lparr>lib_calls := cs\<rparr>) = build_spec w"
  "build_spec (w\<lparr>dialogs := ds\<rparr>) = build_spec w"
  "build_spec (w\<lparr>console_text := t\<rparr>) = build_spec w"
  "build_spec (w\<lparr>current_image := im\<rparr>) = build_spec w"
  "build_spec (w\<lparr>current_qr := q\<rparr>) = build_spec w"
  "build_spec (w\<lparr>current_spec := sp\<rparr>) = build_spec w"
  "build_spec (w\<lparr>preview_photo := ph\<rparr>) = build_spec w"
  "build_spec (w\<lparr>preview_label_image := ph\<rparr>) = build_spec w"
  "build_spec (w\<lparr>preview_label_text := t\<rparr>) = build_spec w"
  "build_spec (w\<lparr>status_var := t\<rparr>) = build_spec w"
  by (simp_all add: build_spec_def cong: sum.case_cong)




section \<open>The stored spec is kept or rebuilt, never changed\<close>



lemma set_preview_image_unfold:
  "set_preview L (Some im) qr w =
     (case build_spec w of
        Inl e \<Rightarrow> (Inl e, w\<lparr>current_image := Some im, current_qr := qr\<rparr>)
      | Inr s \<Rightarrow>
          pbind (reads (\<lambda>_. new_size preview_max (size_wh im))) (\<lambda>sz.
          pbind (resize L im sz) (\<lambda>display_img.
          pbind (PhotoImage L display_img) (\<lambda>ph.
          modify (\<lambda>w. w\<lparr>preview_photo := Some ph, preview_label_image := Some ph,
                         status_var := ''Preview '' @ str_nat (fst sz) @ [CHR 0xD7]
                                       @ str_nat (snd sz)\<rparr>))))
            (w\<lparr>current_image := Some im, current_qr := qr, current_spec := Some s\<rparr>))"
  by (simp add: set_preview_def pbind_def modify_def build_spec_stmt_def reads_def pret_def
      split: sum.split)
























section \<open>The mode of a saved PNG\<close>

text \<open>
  C6, as stated, fails where the library renders an image that is neither RGB nor
  RGBA: for black on white the sample library, like the encoding library, renders a
  1-bit image, and the PNG encoder writes that image as it is.
\<close>

theorem png_saved_in_library_mode:
  "PNGEncoder_save sample_lib sample_qr ''qr.png'' ''black'' ''white'' 10 4 init_QRApp =
     (Inr (),
      init_QRApp\<lparr>lib_calls :=
        [Call_make_image sample_qr ''black'' (Some ''white''),
         Call_save \<lparr>mode = ''1'', size_wh = (290, 290), raster = 0\<rparr> ''qr.png'' ''PNG'']\<rparr>) \<and>
   mode \<lparr>mode = ''1'', size_wh = (290, 290), raster = 0\<rparr> \<notin> {''RGB'', ''RGBA''}"
  by (simp add: PNGEncoder_save_def pbind_def pret_def make_image_def save_def extern_def
      sample_lib_def sample_qr_def init_QRApp_def lower_sample)

text \<open>
  C6, amended.  The PNG encoder asks the library to convert the rendered image to
  RGBA exactly when the requested background colour is \<open>transparent\<close>, and then
  writes the converted image; for any other background it writes the rendered image
  itself, with no conversion, so the mode of the file is the mode the library
  rendered.  Both writes are in PNG format.
\<close>

theorem png_encoder_converts_iff_transparent:
  assumes "make_image_res L qr fill (Some bg) = Inr img"
  shows "(bg = ''transparent'' \<longrightarrow> convert_res L img ''RGBA'' = Inr img' \<longrightarrow>
            PNGEncoder_save L qr path fill bg bs bd w =
              (save_res L img' path ''PNG'',
               w\<lparr>lib_calls := lib_calls w @ [Call_make_image qr fill (Some bg),
                                              Call_convert img ''RGBA'',
                                              Call_save img' path ''PNG'']\<rparr>)) \<and>
         (bg \<noteq> ''transparent'' \<longrightarrow>
            PNGEncoder_save L qr path fill bg bs bd w =
              (save_res L img path ''PNG'',
               w\<lparr>lib_calls := lib_calls w @ [Call_make_image qr fill (Some bg),
                                              Call_save img path ''PNG'']\<rparr>))"
  using PNGEncoder_save_transparent[OF _ assms, of img' path bs bd w]
    PNGEncoder_save_opaque[OF _ assms, of path bs bd w]
  by blast

theorem png_encoder_converts_iff_transparent_witness:
  "make_image_res sample_lib sample_qr ''black'' (Some ''transparent'') =
     Inr \<lparr>mode = ''RGBA'', size_wh = (290, 290), raster = 0\<rparr> \<and>
   convert_res sample_lib \<lparr>mode = ''RGBA'', size_wh = (290, 290), raster = 0\<rparr> ''RGBA'' =
     Inr \<lparr>mode = ''RGBA'', size_wh = (290, 290), raster = 0\<rparr> \<and>
   PNGEncoder_save sample_lib sample_qr ''qr.png'' ''black'' ''transparent'' 10 4 init_QRApp =
     (save_res sample_lib \<lparr>mode = ''RGBA'', size_wh = (290, 290), raster = 0\<rparr> ''qr.png'' ''PNG'',
      init_QRApp\<lparr>lib_calls := lib_calls init_QRApp @
        [Call_make_image sample_qr ''black'' (Some ''transparent''),
         Call_convert \<lparr>mode = ''RGBA'', size_wh = (290, 290), raster = 0\<rparr> ''RGBA'',
         Call_save \<lparr>mode = ''RGBA'', size_wh = (290, 290), raster = 0\<rparr> ''qr.png'' ''PNG'']\<rparr>) \<and>
   make_image_res sample_lib sample_qr ''red'' (Some ''white'') =
     Inr \<lparr>mode = ''RGB'', size_wh = (290, 290), raster = 0\<rparr> \<and>
   ''white'' \<noteq> ''transparent'' \<and>
   PNGEncoder_save sample_lib sample_qr ''qr.png'' ''red'' ''white'' 10 4 init_QRApp =
     (save_res sample_lib \<lparr>mode = ''RGB'', size_wh = (290, 290), raster = 0\<rparr> ''qr.png'' ''PNG'',
      init_QRApp\<lparr>lib_calls := lib_calls init_QRApp @
        [Call_make_image sample_qr ''red'' (Some ''white''),
         Call_save \<lparr>mode = ''RGB'', size_wh = (290, 290), raster = 0\<rparr> ''qr.png'' ''PNG'']\<rparr>)"
proof -
  let ?img = "\<lparr>mode = ''RGBA'', size_wh = (290, 290), raster = 0\<rparr>"
  let ?rgb = "\<lparr>mode = ''RGB'', size_wh = (290, 290), raster = 0\<rparr>"
  have lt: "lower ''transparent'' = ''transparent''" by code_simp
  have lr: "lower ''red'' = ''red''" by code_simp
  have a: "make_image_res sample_lib sample_qr ''black'' (Some ''transparent'') = Inr ?img"
    by (simp add: sample_lib_def sample_qr_def lower_sample lt)
  have b: "convert_res sample_lib ?img ''RGBA'' = Inr ?img"
    by (simp add: sample_lib_def)
  have c: "''transparent'' = ''transparent''" by simp
  have a': "make_image_res sample_lib sample_qr ''red'' (Some ''white'') = Inr ?rgb"
    by (simp add: sample_lib_def sample_qr_def lower_sample lr)
  have c': "''white'' \<noteq> ''transparent''" by simp
  from png_encoder_converts_iff_transparent[OF a, of ?img "''qr.png''" 10 4 init_QRApp] a b c
  have 1: "PNGEncoder_save sample_lib sample_qr ''qr.png'' ''black'' ''transparent'' 10 4 init_QRApp =
     (save_res sample_lib ?img ''qr.png'' ''PNG'',
      init_QRApp\<lparr>lib_calls := lib_calls init_QRApp @
        [Call_make_image sample_qr ''black'' (Some ''transparent''),
         Call_convert ?img ''RGBA'', Call_save ?img ''qr.png'' ''PNG'']\<rparr>)"
    by blast
  from png_encoder_converts_iff_transparent[OF a', of ?rgb "''qr.png''" 10 4 init_QRApp] c'
  have 2: "PNGEncoder_save sample_lib sample_qr ''qr.png'' ''red'' ''white'' 10 4 init_QRApp =
     (save_res sample_lib ?rgb ''qr.png'' ''PNG'',
      init_QRApp\<lparr>lib_calls := lib_calls init_QRApp @
        [Call_make_image sample_qr ''red'' (Some ''white''), Call_save ?rgb ''qr.png'' ''PNG'']\<rparr>)"
    by blast
  from a b a' c' 1 2 show ?thesis by blast
qed

section \<open>The floats of the preview stay in the normal range\<close>

lemma fl_two_powi: "fl (2 powi j) = 2 powi j"
  using fl_exact[of 1 j] by simp

lemma fl_ge_two_powi: "2 powi j \<le> x \<Longrightarrow> 2 powi j \<le> fl x"
  using fl_mono[of "2 powi j" x] by (simp add: fl_two_powi less_imp_le)

lemma fl_le_two_powi: "0 \<le> x \<Longrightarrow> x \<le> 2 powi j \<Longrightarrow> fl x \<le> 2 powi j"
  using fl_mono[of x "2 powi j"] by (simp add: fl_two_powi)

lemma normal_rangeI: "2 powi (- 53) \<le> x \<Longrightarrow> x \<le> 2 powi 53 \<Longrightarrow> normal_range x"
proof -
  assume lo: "2 powi (- 53) \<le> x" and hi: "x \<le> 2 powi 53"
  have "(2::rat) powi (- 1022) \<le> 2 powi (- 53)" by (simp only: two_powi_le_iff)
  moreover have "(2::rat) powi 53 < 2 powi 1024" by (simp only: two_powi_less_iff)
  moreover have "0 < (2::rat) powi (- 53)" by (rule two_powi_pos)
  ultimately show ?thesis using lo hi by (simp add: normal_range_def)
qed

lemma preview_floats_normal:
  assumes "1 \<le> x" "x \<le> m" "m < 2 ^ 53" "P < 2 ^ 52"
  shows "normal_range (fl (of_nat P / of_nat m))"
    and "normal_range (fl (of_nat x))"
    and "normal_range (int_times_float x (min (fl (of_nat P / of_nat m)) 1))"
proof -
  from assms have m0: "0 < m" and x53: "x < 2 ^ 53" by simp_all
  have mr: "(of_nat m :: rat) \<le> 2 ^ 53"
    using assms(3) by (metis less_imp_le of_nat_le_iff of_nat_numeral of_nat_power)
  have xr: "(of_nat x :: rat) \<le> 2 ^ 53"
    using x53 by (metis less_imp_le of_nat_le_iff of_nat_numeral of_nat_power)
  have "(of_nat P :: rat) < 2 ^ 52"
    using assms(4) by (metis of_nat_less_iff of_nat_numeral of_nat_power)
  then have Pr: "(of_nat P :: rat) \<le> 2 ^ 53" by simp
  let ?q = "fl (of_nat P / of_nat m)"
  have q_cases: "?q = 0 \<or> (2 powi (- 53) \<le> ?q \<and> ?q \<le> 2 powi 53)"
  proof (cases "P = 0")
    case True
    then show ?thesis by (simp add: fl_def)
  next
    case False
    then have "(1::rat) \<le> of_nat P" by simp
    then have "1 / 2 ^ 53 \<le> (of_nat P :: rat) / of_nat m"
      using mr m0 by (intro frac_le) simp_all
    then have lo: "(2::rat) powi (- 53) \<le> of_nat P / of_nat m"
      by (simp add: power_int_minus inverse_eq_divide)
    have "(of_nat P :: rat) / of_nat m \<le> of_nat P / 1"
      using m0 by (intro divide_left_mono) simp_all
    with Pr have hi: "(of_nat P :: rat) / of_nat m \<le> 2 powi 53" by simp
    from fl_ge_two_powi[OF lo] fl_le_two_powi[OF _ hi] show ?thesis by simp
  qed
  show "normal_range ?q"
    using q_cases by (auto simp: normal_range_def intro: normal_rangeI)
  show "normal_range (fl (of_nat x))"
  proof (rule normal_rangeI)
    have "(2::rat) powi (- 53) \<le> 1" by (simp add: power_int_minus inverse_eq_divide)
    also have "\<dots> \<le> of_nat x" using assms(1) by simp
    finally show "2 powi (- 53) \<le> fl (rat_of_nat x)" by (simp add: fl_of_nat[OF x53])
    show "fl (rat_of_nat x) \<le> 2 powi 53" using xr by (simp add: fl_of_nat[OF x53])
  qed
  let ?s = "min ?q 1"
  show "normal_range (int_times_float x ?s)"
  proof (cases "?q = 0")
    case True
    then show ?thesis by (simp add: int_times_float_def normal_range_def fl_def)
  next
    case False
    with q_cases have q: "2 powi (- 53) \<le> ?q" by simp
    have one: "(2::rat) powi (- 53) \<le> 1" by (simp add: power_int_minus inverse_eq_divide)
    from q one have s: "2 powi (- 53) \<le> ?s" by simp
    have "(2::rat) powi (- 53) = 1 * 2 powi (- 53)" by simp
    also have "\<dots> \<le> of_nat x * ?s"
      using assms(1) s by (intro mult_mono) simp_all
    finally have lo: "2 powi (- 53) \<le> rat_of_nat x * ?s" .
    have "of_nat x * ?s \<le> of_nat x * 1"
      by (intro mult_left_mono) simp_all
    with xr have hi: "rat_of_nat x * ?s \<le> 2 powi 53" by simp
    have nn: "0 \<le> rat_of_nat x * ?s"
      using lo two_powi_pos[of "- 53"] by linarith
    show ?thesis
      unfolding int_times_float_def fl_of_nat[OF x53]
      by (rule normal_rangeI[OF fl_ge_two_powi[OF lo] fl_le_two_powi[OF nn hi]])
  qed
qed

section \<open>The preview is resized to the computed size\<close>

lemma set_preview_resizes:
  assumes "build_spec w = Inr s" "new_size preview_max (size_wh im) = Inr sz"
  shows "first_new_call (set_preview L (Some im) qr) w = Some (Call_resize im sz)"
proof -
  have k: "\<And>d. keeps_journal
      (pbind (PhotoImage L d) (\<lambda>ph.
         modify (\<lambda>w. w\<lparr>preview_photo := Some ph, preview_label_image := Some ph,
                        status_var := ''Preview '' @ str_nat (fst sz) @ [CHR 0xD7]
                                      @ str_nat (snd sz)\<rparr>)))"
    by (intro keeps_pbind) (simp_all add: keeps_modify)
  let ?w3 = "w\<lparr>current_image := Some im, current_qr := qr, current_spec := Some s\<rparr>"
  have "\<exists>rest. lib_calls (snd (pbind (extern (Call_resize im sz) (resize_res L im sz)) (\<lambda>d.
             pbind (PhotoImage L d) (\<lambda>ph.
               modify (\<lambda>w. w\<lparr>preview_photo := Some ph, preview_label_image := Some ph,
                        status_var := ''Preview '' @ str_nat (fst sz) @ [CHR 0xD7]
                                      @ str_nat (snd sz)\<rparr>))) ?w3)) =
      lib_calls ?w3 @ Call_resize im sz # rest"
    by (rule pbind_extern_journal[OF k])
  then obtain rest where "lib_calls (snd (set_preview L (Some im) qr w)) =
      lib_calls w @ Call_resize im sz # rest"
    by (auto simp: set_preview_image_unfold assms pbind_def reads_def resize_def)
  then show ?thesis by (rule first_new_callI)
qed

section \<open>The rounding at work\<close>

text \<open>
  A 571 by 571 image is shown at 359 by 359, as Python computes it; in exact
  arithmetic \<open>571 * (360 / 571)\<close> would be 360.
\<close>

lemma floor_rat_numeral: "\<lfloor>(numeral a :: rat) / numeral b\<rfloor> = numeral a div numeral b"
  using floor_divide_of_int_eq[of "numeral a" "numeral b", where ?'a = rat] by simp

lemma ilog2_360_361: "ilog2 (360 / 361) = - 1"
  by (rule ilog2_unique) (simp_all add: power_int_minus)

lemma fl_360_361: "fl (360 / 361) = 4491124282142323 / 4503599627370496"
  unfolding fl_def fl_pos_def Let_def ilog2_360_361
  by (simp add: round_half_even_def power_int_minus Let_def floor_rat_numeral)

lemma ilog2_360_571: "ilog2 (360 / 571) = - 1"
  by (rule ilog2_unique) (simp_all add: power_int_minus)

lemma fl_360_571: "fl (360 / 571) = 5678794626456667 / 9007199254740992"
  unfolding fl_def fl_pos_def Let_def ilog2_360_571
  by (simp add: round_half_even_def power_int_minus Let_def floor_rat_numeral)

lemma ilog2_product: "ilog2 (3242591731706756857 / 9007199254740992) = 8"
  by (rule ilog2_unique) simp_all

lemma fl_product:
  "fl (3242591731706756857 / 9007199254740992) = 6333186975989759 / 17592186044416"
  unfolding fl_def fl_pos_def Let_def ilog2_product
  by (simp add: round_half_even_def power_int_minus Let_def floor_rat_numeral)

lemma new_size_571: "new_size 360 (571, 571) = Inr (359, 359)"
proof -
  have s: "min (fl (360 / 571)) 1 = 5678794626456667 / 9007199254740992"
    by (simp add: fl_360_571)
  have t: "int_times_float 571 (5678794626456667 / 9007199254740992) =
             6333186975989759 / 17592186044416"
    using fl_of_nat[of 571] by (simp add: int_times_float_def fl_product)
  have i: "int_of_float (6333186975989759 / 17592186044416) = 359"
    by (simp add: int_of_float_def floor_rat_numeral)
  show ?thesis
    by (simp add: new_size_def true_div_def Let_def s t i)
qed

end
